theory Spec2Isabelle
  imports Main
begin

section \<open>JavaScript values, errors and effects\<close>

text \<open>
  Values that cross the adapters' boundaries untyped (\<open>Record<string, any>\<close>, the
  payloads of the client libraries) are JSON-like values. Numbers are modelled as
  integers (row limits, page sizes and counters are all the code computes with).
  An object is the list of its own enumerable entries in enumeration order, which is
  what \<open>Object.entries\<close> iterates over; keys are distinct.
\<close>

datatype jsval =
    JUndefined
  | JNull
  | JBool bool
  | JNum int
  | JStr string
  | JArr "jsval list"
  | JObj "(string \<times> jsval) list"

text \<open>JavaScript truthiness, as used by \<open>if (v)\<close>, \<open>!v\<close>, \<open>a && b\<close> and \<open>a || b\<close>.\<close>

fun truthy :: "jsval \<Rightarrow> bool" where
  "truthy JUndefined = False"
| "truthy JNull = False"
| "truthy (JBool b) = b"
| "truthy (JNum n) = (n \<noteq> 0)"
| "truthy (JStr s) = (s \<noteq> [])"
| "truthy (JArr _) = True"
| "truthy (JObj _) = True"

text \<open>Property read \<open>v.k\<close> on a value that is not null or undefined.\<close>

fun get_prop :: "jsval \<Rightarrow> string \<Rightarrow> jsval" where
  "get_prop (JObj kvs) k = (case map_of kvs k of None \<Rightarrow> JUndefined | Some v \<Rightarrow> v)"
| "get_prop _ k = JUndefined"

text \<open>An optional string (\<open>string | undefined\<close>) is truthy when defined and non-empty.\<close>

definition truthy_str :: "string option \<Rightarrow> bool" where
  "truthy_str v = (case v of None \<Rightarrow> False | Some s \<Rightarrow> s \<noteq> [])"

text \<open>\<open>v || d\<close> on an optional string.\<close>

definition or_str :: "string option \<Rightarrow> string \<Rightarrow> string" where
  "or_str v d = (case v of None \<Rightarrow> d | Some s \<Rightarrow> if s \<noteq> [] then s else d)"

text \<open>\<open>String.prototype.trim\<close> on the white space of the Latin-1 range.\<close>

definition is_space :: "char \<Rightarrow> bool" where
  "is_space c = (c \<in> set [CHR 0x09, CHR 0x0A, CHR 0x0B, CHR 0x0C, CHR 0x0D, CHR '' '', CHR 0xA0])"

definition trim :: "string \<Rightarrow> string" where
  "trim s = rev (dropWhile is_space (rev (dropWhile is_space s)))"

text \<open>Thrown values: \<open>new Error(m)\<close>, a \<open>TypeError\<close> of the runtime, and an HTTP
  error of a client library, which carries a \<open>status\<close>.\<close>

datatype error = Error string | TypeError string | HttpError string int

fun message :: "error \<Rightarrow> string" where
  "message (Error m) = m"
| "message (TypeError m) = m"
| "message (HttpError m _) = m"

fun status :: "error \<Rightarrow> int option" where
  "status (HttpError _ c) = Some c"
| "status _ = None"

text \<open>
  The calls of the database query builder, in the order they are chained;
  a request to the database service is the chain that is awaited.
\<close>

datatype builder_call =
    From string
  | Select string
  | Is string jsval
  | Eq string jsval
  | Neq string jsval
  | Gt string jsval
  | Gte string jsval
  | Lt string jsval
  | Lte string jsval
  | Like string jsval
  | Ilike string jsval
  | In string jsval
  | Order string bool
  | Limit int
  | Insert jsval
  | Update jsval
  | Delete
  | SelectBack

text \<open>The network and subprocess calls a method can make.\<close>

datatype call =
    Exec string
  | AccessSecretVersion string
  | Postgrest "builder_call list"
  | RpcCall string jsval
  | OctokitCall string jsval
  | GetFiles string jsval
  | Download string string
  | Save string string string string

text \<open>
  A method is a function from the object's state to an outcome (\<open>Inl\<close>: the exception
  that leaves the method), the state at that point (assignments made before a throw
  persist) and the network and subprocess calls made, in order.
\<close>

type_synonym ('s, 'a) prog = "'s \<Rightarrow> (error + 'a) \<times> 's \<times> call list"

definition ret :: "'a \<Rightarrow> ('s, 'a) prog" where
  "ret x = (\<lambda>s. (Inr x, s, []))"

definition throw :: "error \<Rightarrow> ('s, 'a) prog" where
  "throw e = (\<lambda>s. (Inl e, s, []))"

definition andThen :: "('s, 'a) prog \<Rightarrow> ('a \<Rightarrow> ('s, 'b) prog) \<Rightarrow> ('s, 'b) prog" where
  "andThen p f = (\<lambda>s. case p s of
       (Inl e, s1, cs) \<Rightarrow> (Inl e, s1, cs)
     | (Inr x, s1, cs) \<Rightarrow> (case f x s1 of (r, s2, cs') \<Rightarrow> (r, s2, cs @ cs')))"

definition try_catch :: "('s, 'a) prog \<Rightarrow> (error \<Rightarrow> ('s, 'a) prog) \<Rightarrow> ('s, 'a) prog" where
  "try_catch p h = (\<lambda>s. case p s of
       (Inl e, s1, cs) \<Rightarrow> (case h e s1 of (r, s2, cs') \<Rightarrow> (r, s2, cs @ cs'))
     | (Inr x, s1, cs) \<Rightarrow> (Inr x, s1, cs))"

definition getState :: "('s, 's) prog" where
  "getState = (\<lambda>s. (Inr s, s, []))"

definition modify :: "('s \<Rightarrow> 's) \<Rightarrow> ('s, unit) prog" where
  "modify f = (\<lambda>s. (Inr (), f s, []))"

text \<open>A network or subprocess call \<open>c\<close> whose outcome is \<open>r\<close>.\<close>

definition external :: "call \<Rightarrow> error + 'a \<Rightarrow> ('s, 'a) prog" where
  "external c r = (\<lambda>s. (r, s, [c]))"

text \<open>A local library call that may throw (a constructor, a file-system test).\<close>

definition attempt :: "error + 'a \<Rightarrow> ('s, 'a) prog" where
  "attempt r = (\<lambda>s. (r, s, []))"

definition construct :: "error option \<Rightarrow> ('s, unit) prog" where
  "construct r = (\<lambda>s. (case r of None \<Rightarrow> Inr () | Some e \<Rightarrow> Inl e, s, []))"

definition console_error :: "('s, unit) prog" where
  "console_error = ret ()"

definition outcome :: "(error + 'a) \<times> 's \<times> call list \<Rightarrow> error + 'a" where
  "outcome r = fst r"

definition state_of :: "(error + 'a) \<times> 's \<times> call list \<Rightarrow> 's" where
  "state_of r = fst (snd r)"

definition calls :: "(error + 'a) \<times> 's \<times> call list \<Rightarrow> call list" where
  "calls r = snd (snd r)"

section \<open>The outside world\<close>

text \<open>
  Everything the program reads from outside: the outcome of each subprocess, of the
  secret store, of the client libraries' constructors and requests, and the process
  environment. \<open>Inl\<close> is a call that throws (or a promise that rejects). The database
  service answers with \<open>{ data, error }\<close>.
\<close>

record pg_response =
  data :: jsval
  pg_error :: "string option"

record world =
  execSync :: "string \<Rightarrow> error + string"
  existsSync :: "string \<Rightarrow> error + bool"
  newSecretManagerServiceClient :: "error option"
  accessSecretVersion :: "string \<Rightarrow> error + string option"
  env :: "string \<Rightarrow> string option"
  createClient :: "string \<Rightarrow> string \<Rightarrow> error option"
  postgrest :: "builder_call list \<Rightarrow> error + pg_response"
  rpc_request :: "string \<Rightarrow> jsval \<Rightarrow> error + pg_response"
  newOctokit :: "string \<Rightarrow> error option"
  octokit_request :: "string \<Rightarrow> jsval \<Rightarrow> error + jsval"
  newStorage :: "string \<Rightarrow> error option"
  getFiles :: "string \<Rightarrow> jsval \<Rightarrow> error + jsval list"
  download :: "string \<Rightarrow> string \<Rightarrow> error + string"
  save :: "string \<Rightarrow> string \<Rightarrow> string \<Rightarrow> string \<Rightarrow> error + unit"
  base64_decode :: "string \<Rightarrow> string"

section \<open>SecretsManager (the first file of src/unnamed/part_000)\<close>

text \<open>Line numbers are those of \<open>src/unnamed/part_000\<close>.\<close>

record supabase_config =
  url :: string
  anonKey :: string
  serviceRoleKey :: "string option"

record github_config =
  token :: string

record gcloud_config =
  projectId :: string
  applicationCredentials :: "string option"

record secrets =
  supabase :: "supabase_config option"
  github :: "github_config option"
  gcloud :: "gcloud_config option"

datatype secret_client = SecretManagerServiceClient

record manager =
  secrets :: secrets
  secretClient :: "secret_client option"

text \<open>The optional chains \<open>this.secrets.supabase?.url\<close>, \<open>github?.token\<close>,
  \<open>gcloud?.projectId\<close>.\<close>

definition supabase_url :: "manager \<Rightarrow> string option" where
  "supabase_url this = map_option url (supabase (secrets this))"

definition supabase_anonKey :: "manager \<Rightarrow> string option" where
  "supabase_anonKey this = map_option anonKey (supabase (secrets this))"

definition github_token :: "manager \<Rightarrow> string option" where
  "github_token this = map_option token (github (secrets this))"

definition gcloud_projectId :: "manager \<Rightarrow> string option" where
  "gcloud_projectId this = map_option projectId (gcloud (secrets this))"

definition set_supabase :: "supabase_config \<Rightarrow> manager \<Rightarrow> manager" where
  "set_supabase c this = this\<lparr>secrets := (secrets this)\<lparr>supabase := Some c\<rparr>\<rparr>"

definition set_github :: "github_config \<Rightarrow> manager \<Rightarrow> manager" where
  "set_github c this = this\<lparr>secrets := (secrets this)\<lparr>github := Some c\<rparr>\<rparr>"

definition set_gcloud :: "gcloud_config \<Rightarrow> manager \<Rightarrow> manager" where
  "set_gcloud c this = this\<lparr>secrets := (secrets this)\<lparr>gcloud := Some c\<rparr>\<rparr>"

text \<open>
  \<open>initializeGCloud\<close> (lines 29-47). The module bound to \<open>fs\<close> is \<open>fs.promises\<close>, so
  what \<open>fs.existsSync(adcPath)\<close> does is left to the world (\<open>Inl\<close> when the call throws).
  \<open>fs.promises\<close> has no \<open>existsSync\<close>, so the call throws a \<open>TypeError\<close> in the program
  as it stands, and the concrete worlds below all answer that way.
  The second command line holds double quotes, written here as the character \<open>0x22\<close>.
\<close>

definition adc_path_command :: string where
  "adc_path_command =
     ''gcloud info --format='' @ [CHR 0x22] @
     ''value(config.paths.application_default_credentials_path)'' @ [CHR 0x22]"

definition initializeGCloud :: "world \<Rightarrow> (manager, unit) prog" where
  "initializeGCloud w =
     try_catch
       (andThen (external (Exec ''gcloud config get-value project'')
                   (execSync w ''gcloud config get-value project'')) (\<lambda>out.
        let project = trim out in
        if project \<noteq> [] then
          andThen (modify (set_gcloud \<lparr>projectId = project, applicationCredentials = None\<rparr>)) (\<lambda>_.
          andThen (external (Exec adc_path_command) (execSync w adc_path_command)) (\<lambda>out2.
          let adcPath = trim out2 in
          andThen (if adcPath \<noteq> [] then attempt (existsSync w adcPath) else ret False) (\<lambda>found.
          andThen (if found
                   then modify (set_gcloud \<lparr>projectId = project, applicationCredentials = Some adcPath\<rparr>)
                   else ret ()) (\<lambda>_.
          andThen (construct (newSecretManagerServiceClient w)) (\<lambda>_.
          modify (\<lambda>this. this\<lparr>secretClient := Some SecretManagerServiceClient\<rparr>))))))
        else ret ()))
       (\<lambda>error. console_error)"

text \<open>The constructor (lines 22-27).\<close>

definition empty_manager :: manager where
  "empty_manager = \<lparr>secrets = \<lparr>supabase = None, github = None, gcloud = None\<rparr>, secretClient = None\<rparr>"

definition new_SecretsManager :: "world \<Rightarrow> (error + unit) \<times> manager \<times> call list" where
  "new_SecretsManager w = initializeGCloud w empty_manager"

text \<open>\<open>getSecret\<close> (lines 123-132).\<close>

definition secret_version_name :: "string \<Rightarrow> string \<Rightarrow> string" where
  "secret_version_name project secretId =
     ''projects/'' @ project @ ''/secrets/'' @ secretId @ ''/versions/latest''"

definition getSecret :: "world \<Rightarrow> string \<Rightarrow> string \<Rightarrow> (manager, string option) prog" where
  "getSecret w project secretId =
     try_catch
       (let name = secret_version_name project secretId in
        andThen getState (\<lambda>this.
        case secretClient this of
          None \<Rightarrow> throw (TypeError ''Cannot read properties of undefined'')
        | Some c \<Rightarrow> external (AccessSecretVersion name) (accessSecretVersion w name)))
       (\<lambda>error. andThen console_error (\<lambda>_. ret None))"

text \<open>\<open>loadFromSecretManager\<close> (lines 62-87).\<close>

definition loadFromSecretManager :: "world \<Rightarrow> (manager, unit) prog" where
  "loadFromSecretManager w =
     try_catch
       (andThen getState (\<lambda>this.
        case gcloud (secrets this) of
          None \<Rightarrow> throw (TypeError ''Cannot read properties of undefined'')
        | Some g \<Rightarrow>
            andThen (getSecret w (projectId g) ''supabase-url'') (\<lambda>supabaseUrl.
            andThen (getSecret w (projectId g) ''supabase-anon-key'') (\<lambda>supabaseAnonKey.
            andThen (getSecret w (projectId g) ''supabase-service-role-key'') (\<lambda>supabaseServiceKey.
            andThen (if truthy_str supabaseUrl \<and> truthy_str supabaseAnonKey
                     then modify (set_supabase
                            \<lparr>url = or_str supabaseUrl [], anonKey = or_str supabaseAnonKey [],
                             serviceRoleKey = supabaseServiceKey\<rparr>)
                     else ret ()) (\<lambda>_.
            andThen (getSecret w (projectId g) ''github-token'') (\<lambda>githubToken.
            if truthy_str githubToken
            then modify (set_github \<lparr>token = or_str githubToken []\<rparr>)
            else ret ())))))))
       (\<lambda>error. console_error)"

text \<open>\<open>loadFromGCloudConfig\<close> (lines 89-99).\<close>

definition loadFromGCloudConfig :: "world \<Rightarrow> (manager, unit) prog" where
  "loadFromGCloudConfig w =
     try_catch
       (andThen (external (Exec ''gcloud auth application-default print-access-token 2>/dev/null'')
                   (execSync w ''gcloud auth application-default print-access-token 2>/dev/null'')) (\<lambda>out.
        let githubToken = trim out in
        andThen getState (\<lambda>this.
        if githubToken \<noteq> [] \<and> \<not> truthy_str (github_token this)
        then modify (set_github \<lparr>token = githubToken\<rparr>)
        else ret ())))
       (\<lambda>error. ret ())"

text \<open>\<open>loadFromEnvironment\<close> (lines 101-121).\<close>

definition loadFromEnvironment :: "world \<Rightarrow> (manager, unit) prog" where
  "loadFromEnvironment w =
     andThen (andThen getState (\<lambda>this.
       if \<not> truthy_str (supabase_url this) \<and> truthy_str (env w ''SUPABASE_URL'')
       then modify (set_supabase
              \<lparr>url = or_str (env w ''SUPABASE_URL'') [],
               anonKey = or_str (env w ''SUPABASE_ANON_KEY'') [],
               serviceRoleKey = env w ''SUPABASE_SERVICE_ROLE_KEY''\<rparr>)
       else ret ())) (\<lambda>_.
     andThen (andThen getState (\<lambda>this.
       if \<not> truthy_str (github_token this) \<and> truthy_str (env w ''GITHUB_TOKEN'')
       then modify (set_github \<lparr>token = or_str (env w ''GITHUB_TOKEN'') []\<rparr>)
       else ret ())) (\<lambda>_.
     andThen getState (\<lambda>this.
       if \<not> truthy_str (gcloud_projectId this) \<and> truthy_str (env w ''GCLOUD_PROJECT'')
       then modify (set_gcloud
              (case gcloud (secrets this) of
                 None \<Rightarrow> \<lparr>projectId = or_str (env w ''GCLOUD_PROJECT'') [], applicationCredentials = None\<rparr>
               | Some g \<Rightarrow> g\<lparr>projectId := or_str (env w ''GCLOUD_PROJECT'') []\<rparr>))
       else ret ())))"

text \<open>\<open>loadSecrets\<close> (lines 49-60): the three stages in order; the first one runs
  only with a secret-store client and a project id.\<close>

definition managed_store_stage :: "world \<Rightarrow> (manager, unit) prog" where
  "managed_store_stage w =
     andThen getState (\<lambda>this.
       if secretClient this \<noteq> None \<and> truthy_str (gcloud_projectId this)
       then loadFromSecretManager w
       else ret ())"

definition loadSecrets :: "world \<Rightarrow> (manager, unit) prog" where
  "loadSecrets w =
     andThen (managed_store_stage w) (\<lambda>_.
     andThen (loadFromGCloudConfig w) (\<lambda>_.
     loadFromEnvironment w))"

text \<open>The getters and availability predicates (lines 134-156).\<close>

definition getSupabaseConfig :: "manager \<Rightarrow> supabase_config option" where
  "getSupabaseConfig this = supabase (secrets this)"

definition getGitHubToken :: "manager \<Rightarrow> string option" where
  "getGitHubToken this = github_token this"

definition getGCloudConfig :: "manager \<Rightarrow> gcloud_config option" where
  "getGCloudConfig this = gcloud (secrets this)"

definition hasSupabase :: "manager \<Rightarrow> bool" where
  "hasSupabase this = (truthy_str (supabase_url this) \<and> truthy_str (supabase_anonKey this))"


definition hasGCloud :: "manager \<Rightarrow> bool" where
  "hasGCloud this = truthy_str (gcloud_projectId this)"

section \<open>SupabaseIntegration (the second file of src/unnamed/part_000)\<close>

text \<open>
  The argument interfaces. A filter (\<open>Record<string, any>\<close>) is the list of its entries
  in the order \<open>Object.entries\<close> yields them. Field names carry the interface's name
  where two interfaces share one.
\<close>

record orderBy_args =
  column :: string
  ascending :: "bool option"

record SupabaseQueryArgs =
  query_table :: string
  query_select :: "string option"
  query_filter :: "(string \<times> jsval) list option"
  query_limit :: "int option"
  query_orderBy :: "orderBy_args option"

record SupabaseInsertArgs =
  insert_table :: string
  insert_data :: jsval

record SupabaseUpdateArgs =
  update_table :: string
  update_data :: jsval
  update_filter :: "(string \<times> jsval) list"

record SupabaseDeleteArgs =
  delete_table :: string
  delete_filter :: "(string \<times> jsval) list"

record SupabaseRpcArgs =
  functionName :: string
  params :: "jsval option"

datatype supabase_client = SupabaseClient string string

record SupabaseIntegration =
  client :: "supabase_client option"

definition new_SupabaseIntegration :: SupabaseIntegration where
  "new_SupabaseIntegration = \<lparr>client = None\<rparr>"

text \<open>\<open>initialize\<close> (lines 197-210); \<open>sm\<close> is the state of the secrets manager
  the adapter refers to. \<open>createClient\<close> may throw, and nothing catches it.\<close>

definition Supabase_initialize :: "world \<Rightarrow> manager \<Rightarrow> (SupabaseIntegration, bool) prog" where
  "Supabase_initialize w sm =
     (case getSupabaseConfig sm of
        None \<Rightarrow> ret False
      | Some config \<Rightarrow>
          if url config = [] \<or> anonKey config = [] then ret False
          else
            andThen (construct (createClient w (url config) (anonKey config))) (\<lambda>_.
            andThen (modify (\<lambda>this. this\<lparr>client := Some (SupabaseClient (url config) (anonKey config))\<rparr>)) (\<lambda>_.
            ret True)))"

definition Supabase_isAvailable :: "SupabaseIntegration \<Rightarrow> bool" where
  "Supabase_isAvailable this = (client this \<noteq> None)"

text \<open>\<open>typeof value === 'object'\<close> for a value that is not null.\<close>

fun is_object :: "jsval \<Rightarrow> bool" where
  "is_object (JArr _) = True"
| "is_object (JObj _) = True"
| "is_object _ = False"

text \<open>The body of the filter loop of \<open>query\<close> (lines 225-262): one entry
  \<open>[key, value]\<close> applied to the query built so far. The \<open>switch\<close> has no default.\<close>

definition apply_filter :: "builder_call list \<Rightarrow> string \<times> jsval \<Rightarrow> builder_call list" where
  "apply_filter q entry =
     (let key = fst entry; v = snd entry in
      if v = JNull then q @ [Is key JNull]
      else if is_object v \<and> truthy (get_prop v ''operator'') then
        (let operator = get_prop v ''operator''; operand = get_prop v ''value'' in
         if operator = JStr ''eq'' then q @ [Eq key operand]
         else if operator = JStr ''neq'' then q @ [Neq key operand]
         else if operator = JStr ''gt'' then q @ [Gt key operand]
         else if operator = JStr ''gte'' then q @ [Gte key operand]
         else if operator = JStr ''lt'' then q @ [Lt key operand]
         else if operator = JStr ''lte'' then q @ [Lte key operand]
         else if operator = JStr ''like'' then q @ [Like key operand]
         else if operator = JStr ''ilike'' then q @ [Ilike key operand]
         else if operator = JStr ''in'' then q @ [In key operand]
         else q)
      else q @ [Eq key v])"

text \<open>The chain \<open>query\<close> builds before awaiting it (lines 221-273).\<close>

definition build_query :: "SupabaseQueryArgs \<Rightarrow> builder_call list" where
  "build_query args =
     (let q0 = [From (query_table args), Select (or_str (query_select args) ''*'')];
          q1 = (case query_filter args of None \<Rightarrow> q0 | Some entries \<Rightarrow> foldl apply_filter q0 entries);
          q2 = (case query_orderBy args of
                  None \<Rightarrow> q1
                | Some ob \<Rightarrow> q1 @ [Order (column ob) (case ascending ob of None \<Rightarrow> True | Some b \<Rightarrow> b)])
      in case query_limit args of
           None \<Rightarrow> q2
         | Some n \<Rightarrow> if n \<noteq> 0 then q2 @ [Limit n] else q2)"

text \<open>Awaiting a chain and \<open>if (error) throw ...; return data\<close>.\<close>

definition await_data :: "string \<Rightarrow> error + pg_response \<Rightarrow> call \<Rightarrow> ('s, jsval) prog" where
  "await_data label r c =
     andThen (external c r) (\<lambda>res.
       case pg_error res of
         Some msg \<Rightarrow> throw (Error (''Supabase '' @ label @ '' error: '' @ msg))
       | None \<Rightarrow> ret (data res))"

definition Supabase_query :: "world \<Rightarrow> SupabaseQueryArgs \<Rightarrow> (SupabaseIntegration, jsval) prog" where
  "Supabase_query w args =
     andThen getState (\<lambda>this.
       case client this of
         None \<Rightarrow> throw (Error ''Supabase client not initialized'')
       | Some c \<Rightarrow>
           await_data ''query'' (postgrest w (build_query args)) (Postgrest (build_query args)))"

definition Supabase_insert :: "world \<Rightarrow> SupabaseInsertArgs \<Rightarrow> (SupabaseIntegration, jsval) prog" where
  "Supabase_insert w args =
     andThen getState (\<lambda>this.
       case client this of
         None \<Rightarrow> throw (Error ''Supabase client not initialized'')
       | Some c \<Rightarrow>
           (let q = [From (insert_table args), Insert (insert_data args), SelectBack]
            in await_data ''insert'' (postgrest w q) (Postgrest q)))"

text \<open>\<open>update\<close> and \<open>delete\<close> take every filter entry as an equality.\<close>

definition eq_filter :: "builder_call list \<Rightarrow> string \<times> jsval \<Rightarrow> builder_call list" where
  "eq_filter q entry = q @ [Eq (fst entry) (snd entry)]"

definition Supabase_update :: "world \<Rightarrow> SupabaseUpdateArgs \<Rightarrow> (SupabaseIntegration, jsval) prog" where
  "Supabase_update w args =
     andThen getState (\<lambda>this.
       case client this of
         None \<Rightarrow> throw (Error ''Supabase client not initialized'')
       | Some c \<Rightarrow>
           (let q = foldl eq_filter [From (update_table args), Update (update_data args)] (update_filter args)
                      @ [SelectBack]
            in await_data ''update'' (postgrest w q) (Postgrest q)))"

definition Supabase_delete :: "world \<Rightarrow> SupabaseDeleteArgs \<Rightarrow> (SupabaseIntegration, jsval) prog" where
  "Supabase_delete w args =
     andThen getState (\<lambda>this.
       case client this of
         None \<Rightarrow> throw (Error ''Supabase client not initialized'')
       | Some c \<Rightarrow>
           (let q = foldl eq_filter [From (delete_table args), Delete] (delete_filter args) @ [SelectBack]
            in await_data ''delete'' (postgrest w q) (Postgrest q)))"

definition Supabase_rpc :: "world \<Rightarrow> SupabaseRpcArgs \<Rightarrow> (SupabaseIntegration, jsval) prog" where
  "Supabase_rpc w args =
     andThen getState (\<lambda>this.
       case client this of
         None \<Rightarrow> throw (Error ''Supabase client not initialized'')
       | Some c \<Rightarrow>
           (let p = (case params args of None \<Rightarrow> JUndefined | Some v \<Rightarrow> v)
            in await_data ''RPC'' (rpc_request w (functionName args) p) (RpcCall (functionName args) p)))"

section \<open>GitHubIntegration (src/unnamed/part_001)\<close>

text \<open>\<open>xs.join(sep)\<close>, \<open>n || d\<close> on an optional number, and optional values as JSON.\<close>

fun js_join :: "string \<Rightarrow> string list \<Rightarrow> string" where
  "js_join sep [] = []"
| "js_join sep [x] = x"
| "js_join sep (x # y # ys) = x @ sep @ js_join sep (y # ys)"

definition or_num :: "int option \<Rightarrow> int \<Rightarrow> int" where
  "or_num v d = (case v of None \<Rightarrow> d | Some n \<Rightarrow> if n \<noteq> 0 then n else d)"

definition opt_str :: "string option \<Rightarrow> jsval" where
  "opt_str v = (case v of None \<Rightarrow> JUndefined | Some s \<Rightarrow> JStr s)"

definition opt_strs :: "string list option \<Rightarrow> jsval" where
  "opt_strs v = (case v of None \<Rightarrow> JUndefined | Some xs \<Rightarrow> JArr (map JStr xs))"

definition opt_bool :: "bool option \<Rightarrow> jsval" where
  "opt_bool v = (case v of None \<Rightarrow> JUndefined | Some b \<Rightarrow> JBool b)"

text \<open>\<open>v?.map(f)\<close> on a value typed as an optional array, and \<open>'k' in v\<close>.\<close>

definition opt_map :: "(jsval \<Rightarrow> jsval) \<Rightarrow> jsval \<Rightarrow> jsval" where
  "opt_map f v = (case v of JArr xs \<Rightarrow> JArr (map f xs) | _ \<Rightarrow> JUndefined)"

definition has_prop :: "jsval \<Rightarrow> string \<Rightarrow> bool" where
  "has_prop v k = (case v of JObj kvs \<Rightarrow> map_of kvs k \<noteq> None | _ \<Rightarrow> False)"

record GitHubRepoArgs =
  owner :: string
  repo :: string

record GitHubIssueArgs = GitHubRepoArgs +
  issues_state :: "string option"
  issues_labels :: "string list option"
  assignee :: "string option"
  creator :: "string option"
  issues_per_page :: "int option"

record GitHubCreateIssueArgs = GitHubRepoArgs +
  issue_title :: string
  issue_body :: "string option"
  issue_labels :: "string list option"
  assignees :: "string list option"

record GitHubPRArgs = GitHubRepoArgs +
  pulls_state :: "string option"
  pulls_head :: "string option"
  pulls_base :: "string option"
  pulls_per_page :: "int option"

record GitHubCreatePRArgs = GitHubRepoArgs +
  pr_title :: string
  pr_body :: "string option"
  pr_head :: string
  pr_base :: string
  draft :: "bool option"

record GitHubFileArgs = GitHubRepoArgs +
  path :: string
  ref :: "string option"

datatype search_type = Repositories | Code | Issues | Users

record GitHubSearchArgs =
  search_query :: string
  search_type :: search_type
  search_per_page :: "int option"

datatype octokit_client = Octokit string

record GitHubIntegration =
  octokit :: "octokit_client option"

definition new_GitHubIntegration :: GitHubIntegration where
  "new_GitHubIntegration = \<lparr>octokit = None\<rparr>"

definition GitHub_initialize :: "world \<Rightarrow> manager \<Rightarrow> (GitHubIntegration, bool) prog" where
  "GitHub_initialize w sm =
     (case getGitHubToken sm of
        None \<Rightarrow> ret False
      | Some t \<Rightarrow>
          if t = [] then ret False
          else
            andThen (construct (newOctokit w t)) (\<lambda>_.
            andThen (modify (\<lambda>this. this\<lparr>octokit := Some (Octokit t)\<rparr>)) (\<lambda>_.
            ret True)))"

definition GitHub_isAvailable :: "GitHubIntegration \<Rightarrow> bool" where
  "GitHub_isAvailable this = (octokit this \<noteq> None)"

text \<open>A request \<open>await this.octokit.<endpoint>(params)\<close>; the world answers with the
  response's \<open>data\<close>, taken to have the shape the library's types give it.\<close>

definition octokit_call :: "world \<Rightarrow> string \<Rightarrow> jsval \<Rightarrow> ('s, jsval) prog" where
  "octokit_call w endpoint ps = external (OctokitCall endpoint ps) (octokit_request w endpoint ps)"

definition GitHub_getRepository :: "world \<Rightarrow> 'a GitHubRepoArgs_scheme \<Rightarrow> (GitHubIntegration, jsval) prog" where
  "GitHub_getRepository w args =
     andThen getState (\<lambda>this.
       case octokit this of
         None \<Rightarrow> throw (Error ''GitHub client not initialized'')
       | Some c \<Rightarrow>
           andThen (octokit_call w ''repos.get''
                      (JObj [(''owner'', JStr (owner args)), (''repo'', JStr (repo args))])) (\<lambda>d.
           ret (JObj
             [(''name'', get_prop d ''name''),
              (''fullName'', get_prop d ''full_name''),
              (''description'', get_prop d ''description''),
              (''private'', get_prop d ''private''),
              (''defaultBranch'', get_prop d ''default_branch''),
              (''language'', get_prop d ''language''),
              (''stars'', get_prop d ''stargazers_count''),
              (''forks'', get_prop d ''forks_count''),
              (''openIssues'', get_prop d ''open_issues_count''),
              (''createdAt'', get_prop d ''created_at''),
              (''updatedAt'', get_prop d ''updated_at''),
              (''url'', get_prop d ''html_url'')])))"

definition issue_summary :: "jsval \<Rightarrow> jsval" where
  "issue_summary issue =
     JObj
       [(''number'', get_prop issue ''number''),
        (''title'', get_prop issue ''title''),
        (''state'', get_prop issue ''state''),
        (''body'', get_prop issue ''body''),
        (''user'', get_prop (get_prop issue ''user'') ''login''),
        (''labels'', opt_map (\<lambda>l. case l of JStr s \<Rightarrow> JStr s | _ \<Rightarrow> get_prop l ''name'')
                       (get_prop issue ''labels'')),
        (''assignees'', opt_map (\<lambda>a. get_prop a ''login'') (get_prop issue ''assignees'')),
        (''createdAt'', get_prop issue ''created_at''),
        (''updatedAt'', get_prop issue ''updated_at''),
        (''url'', get_prop issue ''html_url'')]"

definition GitHub_listIssues :: "world \<Rightarrow> GitHubIssueArgs \<Rightarrow> (GitHubIntegration, jsval) prog" where
  "GitHub_listIssues w args =
     andThen getState (\<lambda>this.
       case octokit this of
         None \<Rightarrow> throw (Error ''GitHub client not initialized'')
       | Some c \<Rightarrow>
           andThen (octokit_call w ''issues.listForRepo''
                      (JObj [(''owner'', JStr (owner args)), (''repo'', JStr (repo args)),
                             (''state'', JStr (or_str (issues_state args) ''open'')),
                             (''labels'', opt_str (map_option (js_join '','') (issues_labels args))),
                             (''assignee'', opt_str (assignee args)),
                             (''creator'', opt_str (creator args)),
                             (''per_page'', JNum (or_num (issues_per_page args) 30))])) (\<lambda>d.
           case d of
             JArr items \<Rightarrow> ret (JArr (map issue_summary items))
           | _ \<Rightarrow> throw (TypeError ''data.map is not a function'')))"

definition created_summary :: "jsval \<Rightarrow> jsval" where
  "created_summary d =
     JObj
       [(''number'', get_prop d ''number''),
        (''title'', get_prop d ''title''),
        (''state'', get_prop d ''state''),
        (''url'', get_prop d ''html_url'')]"

definition GitHub_createIssue :: "world \<Rightarrow> GitHubCreateIssueArgs \<Rightarrow> (GitHubIntegration, jsval) prog" where
  "GitHub_createIssue w args =
     andThen getState (\<lambda>this.
       case octokit this of
         None \<Rightarrow> throw (Error ''GitHub client not initialized'')
       | Some c \<Rightarrow>
           andThen (octokit_call w ''issues.create''
                      (JObj [(''owner'', JStr (owner args)), (''repo'', JStr (repo args)),
                             (''title'', JStr (issue_title args)),
                             (''body'', opt_str (issue_body args)),
                             (''labels'', opt_strs (issue_labels args)),
                             (''assignees'', opt_strs (assignees args))])) (\<lambda>d.
           ret (created_summary d)))"

definition pull_summary :: "jsval \<Rightarrow> jsval" where
  "pull_summary pr =
     JObj
       [(''number'', get_prop pr ''number''),
        (''title'', get_prop pr ''title''),
        (''state'', get_prop pr ''state''),
        (''body'', get_prop pr ''body''),
        (''user'', get_prop (get_prop pr ''user'') ''login''),
        (''head'', get_prop (get_prop pr ''head'') ''ref''),
        (''base'', get_prop (get_prop pr ''base'') ''ref''),
        (''draft'', get_prop pr ''draft''),
        (''merged'', JBool (get_prop pr ''merged_at'' \<noteq> JNull)),
        (''createdAt'', get_prop pr ''created_at''),
        (''updatedAt'', get_prop pr ''updated_at''),
        (''url'', get_prop pr ''html_url'')]"

definition GitHub_listPullRequests :: "world \<Rightarrow> GitHubPRArgs \<Rightarrow> (GitHubIntegration, jsval) prog" where
  "GitHub_listPullRequests w args =
     andThen getState (\<lambda>this.
       case octokit this of
         None \<Rightarrow> throw (Error ''GitHub client not initialized'')
       | Some c \<Rightarrow>
           andThen (octokit_call w ''pulls.list''
                      (JObj [(''owner'', JStr (owner args)), (''repo'', JStr (repo args)),
                             (''state'', JStr (or_str (pulls_state args) ''open'')),
                             (''head'', opt_str (pulls_head args)),
                             (''base'', opt_str (pulls_base args)),
                             (''per_page'', JNum (or_num (pulls_per_page args) 30))])) (\<lambda>d.
           case d of
             JArr items \<Rightarrow> ret (JArr (map pull_summary items))
           | _ \<Rightarrow> throw (TypeError ''data.map is not a function'')))"

definition GitHub_createPullRequest :: "world \<Rightarrow> GitHubCreatePRArgs \<Rightarrow> (GitHubIntegration, jsval) prog" where
  "GitHub_createPullRequest w args =
     andThen getState (\<lambda>this.
       case octokit this of
         None \<Rightarrow> throw (Error ''GitHub client not initialized'')
       | Some c \<Rightarrow>
           andThen (octokit_call w ''pulls.create''
                      (JObj [(''owner'', JStr (owner args)), (''repo'', JStr (repo args)),
                             (''title'', JStr (pr_title args)),
                             (''body'', opt_str (pr_body args)),
                             (''head'', JStr (pr_head args)),
                             (''base'', JStr (pr_base args)),
                             (''draft'', opt_bool (draft args))])) (\<lambda>d.
           ret (created_summary d)))"

text \<open>\<open>getFileContent\<close>: the guard is outside the \<open>try\<close>; the handler turns a 404 into
  "File not found" and rethrows anything else, its own "Path is not a file" included.\<close>

definition GitHub_getFileContent :: "world \<Rightarrow> GitHubFileArgs \<Rightarrow> (GitHubIntegration, jsval) prog" where
  "GitHub_getFileContent w args =
     andThen getState (\<lambda>this.
       case octokit this of
         None \<Rightarrow> throw (Error ''GitHub client not initialized'')
       | Some c \<Rightarrow>
           try_catch
             (andThen (octokit_call w ''repos.getContent''
                        (JObj [(''owner'', JStr (owner args)), (''repo'', JStr (repo args)),
                               (''path'', JStr (path args)), (''ref'', opt_str (ref args))])) (\<lambda>d.
              if has_prop d ''content'' \<and> get_prop d ''type'' = JStr ''file'' then
                (case get_prop d ''content'' of
                   JStr s \<Rightarrow>
                     ret (JObj
                       [(''name'', get_prop d ''name''),
                        (''path'', get_prop d ''path''),
                        (''content'', JStr (base64_decode w s)),
                        (''size'', get_prop d ''size''),
                        (''sha'', get_prop d ''sha''),
                        (''url'', get_prop d ''html_url'')])
                 | _ \<Rightarrow> throw (TypeError ''The first argument must be of type string''))
              else throw (Error ''Path is not a file'')))
             (\<lambda>error.
                if status error = Some 404 then throw (Error (''File not found: '' @ path args))
                else throw error))"

definition search_endpoint :: "search_type \<Rightarrow> string" where
  "search_endpoint t =
     (case t of
        Repositories \<Rightarrow> ''search.repos''
      | Code \<Rightarrow> ''search.code''
      | Issues \<Rightarrow> ''search.issuesAndPullRequests''
      | Users \<Rightarrow> ''search.users'')"

definition GitHub_search :: "world \<Rightarrow> GitHubSearchArgs \<Rightarrow> (GitHubIntegration, jsval) prog" where
  "GitHub_search w args =
     andThen getState (\<lambda>this.
       case octokit this of
         None \<Rightarrow> throw (Error ''GitHub client not initialized'')
       | Some c \<Rightarrow>
           andThen (octokit_call w (search_endpoint (search_type args))
                      (JObj [(''q'', JStr (search_query args)),
                             (''per_page'', JNum (or_num (search_per_page args) 30))])) (\<lambda>d.
           ret (get_prop d ''items'')))"

section \<open>GCloudIntegration (src/mcp-server/src/integrations/gcloud.ts)\<close>

record GCloudStorageListArgs =
  list_bucket :: string
  list_prefix :: "string option"
  list_delimiter :: "string option"
  maxResults :: "int option"

record GCloudStorageReadArgs =
  read_bucket :: string
  read_file :: string

record GCloudStorageWriteArgs =
  write_bucket :: string
  write_file :: string
  content :: string
  contentType :: "string option"

record GCloudSecretArgs =
  secretId :: string
  version :: "string option"

record GCloudCommandArgs =
  command :: string
  command_args :: "string list option"

datatype storage_client = Storage string

record GCloudIntegration =
  storage :: "storage_client option"
  gcloud_secretClient :: "secret_client option"
  gcloud_project :: "string option"

definition new_GCloudIntegration :: GCloudIntegration where
  "new_GCloudIntegration = \<lparr>storage = None, gcloud_secretClient = None, gcloud_project = None\<rparr>"

text \<open>\<open>initialize\<close> (lines 45-67): the project id is stored before the \<open>try\<close>, and each
  client is stored as soon as its constructor returns.\<close>

definition GCloud_initialize :: "world \<Rightarrow> manager \<Rightarrow> (GCloudIntegration, bool) prog" where
  "GCloud_initialize w sm =
     (case getGCloudConfig sm of
        None \<Rightarrow> ret False
      | Some config \<Rightarrow>
          if projectId config = [] then ret False
          else
            andThen (modify (\<lambda>this. this\<lparr>gcloud_project := Some (projectId config)\<rparr>)) (\<lambda>_.
            try_catch
              (andThen (construct (newStorage w (projectId config))) (\<lambda>_.
               andThen (modify (\<lambda>this. this\<lparr>storage := Some (Storage (projectId config))\<rparr>)) (\<lambda>_.
               andThen (construct (newSecretManagerServiceClient w)) (\<lambda>_.
               andThen (modify (\<lambda>this. this\<lparr>gcloud_secretClient := Some SecretManagerServiceClient\<rparr>)) (\<lambda>_.
               ret True)))))
              (\<lambda>error. andThen console_error (\<lambda>_. ret False))))"

definition GCloud_isAvailable :: "GCloudIntegration \<Rightarrow> bool" where
  "GCloud_isAvailable this =
     (storage this \<noteq> None \<and> gcloud_secretClient this \<noteq> None \<and> truthy_str (gcloud_project this))"

definition file_summary :: "jsval \<Rightarrow> jsval" where
  "file_summary file =
     JObj
       [(''name'', get_prop file ''name''),
        (''size'', get_prop (get_prop file ''metadata'') ''size''),
        (''contentType'', get_prop (get_prop file ''metadata'') ''contentType''),
        (''created'', get_prop (get_prop file ''metadata'') ''timeCreated''),
        (''updated'', get_prop (get_prop file ''metadata'') ''updated'')]"

definition GCloud_listBucketContents ::
    "world \<Rightarrow> GCloudStorageListArgs \<Rightarrow> (GCloudIntegration, jsval) prog" where
  "GCloud_listBucketContents w args =
     andThen getState (\<lambda>this.
       case storage this of
         None \<Rightarrow> throw (Error ''Google Cloud Storage client not initialized'')
       | Some c \<Rightarrow>
           (let q = JObj [(''prefix'', opt_str (list_prefix args)),
                          (''delimiter'', opt_str (list_delimiter args)),
                          (''maxResults'', (case maxResults args of None \<Rightarrow> JUndefined | Some n \<Rightarrow> JNum n))]
            in andThen (external (GetFiles (list_bucket args) q) (getFiles w (list_bucket args) q)) (\<lambda>files.
               ret (JArr (map file_summary files)))))"

definition GCloud_readFile :: "world \<Rightarrow> GCloudStorageReadArgs \<Rightarrow> (GCloudIntegration, jsval) prog" where
  "GCloud_readFile w args =
     andThen getState (\<lambda>this.
       case storage this of
         None \<Rightarrow> throw (Error ''Google Cloud Storage client not initialized'')
       | Some c \<Rightarrow>
           andThen (external (Download (read_bucket args) (read_file args))
                      (download w (read_bucket args) (read_file args))) (\<lambda>text.
           ret (JStr text)))"

definition GCloud_writeFile :: "world \<Rightarrow> GCloudStorageWriteArgs \<Rightarrow> (GCloudIntegration, jsval) prog" where
  "GCloud_writeFile w args =
     andThen getState (\<lambda>this.
       case storage this of
         None \<Rightarrow> throw (Error ''Google Cloud Storage client not initialized'')
       | Some c \<Rightarrow>
           (let t = or_str (contentType args) ''text/plain''
            in andThen (external (Save (write_bucket args) (write_file args) (content args) t)
                          (save w (write_bucket args) (write_file args) (content args) t)) (\<lambda>_.
               ret JUndefined)))"

definition GCloud_getSecret :: "world \<Rightarrow> GCloudSecretArgs \<Rightarrow> (GCloudIntegration, jsval) prog" where
  "GCloud_getSecret w args =
     andThen getState (\<lambda>this.
       case (gcloud_secretClient this, gcloud_project this) of
         (Some c, Some project) \<Rightarrow>
           if project = [] then throw (Error ''Google Cloud Secret Manager client not initialized'')
           else
             (let name = ''projects/'' @ project @ ''/secrets/'' @ secretId args @ ''/versions/''
                           @ or_str (version args) ''latest''
              in andThen (external (AccessSecretVersion name) (accessSecretVersion w name)) (\<lambda>secretValue.
                 case secretValue of
                   Some v \<Rightarrow>
                     if v \<noteq> [] then ret (JStr v)
                     else throw (Error (''Secret '' @ secretId args @ '' not found or empty''))
                 | None \<Rightarrow> throw (Error (''Secret '' @ secretId args @ '' not found or empty''))))
       | _ \<Rightarrow> throw (Error ''Google Cloud Secret Manager client not initialized''))"

text \<open>\<open>executeGCloudCommand\<close> (lines 137-145): no test of any handle; the subprocess runs
  whatever the state of the adapter.\<close>

definition GCloud_executeGCloudCommand ::
    "world \<Rightarrow> GCloudCommandArgs \<Rightarrow> (GCloudIntegration, jsval) prog" where
  "GCloud_executeGCloudCommand w args =
     try_catch
       (let fullCommand = ''gcloud '' @ command args @ '' ''
                            @ (case command_args args of None \<Rightarrow> [] | Some xs \<Rightarrow> js_join '' '' xs)
        in andThen (external (Exec fullCommand) (execSync w fullCommand)) (\<lambda>out.
           ret (JStr (trim out))))
       (\<lambda>error. throw (Error (''gcloud command failed: '' @ message error)))"

section \<open>The cloning script (setup_repos.sh, lines 258-292 of gcloud.ts as stored)\<close>

text \<open>
  The script runs under \<open>set -euo pipefail\<close>. After \<open>mkdir -p\<close> and \<open>cd\<close> into the target
  directory (taken to succeed), it loops over the array \<open>REPOS\<close>. The state is the set of
  directories present in the target directory; \<open>git\<close> tells whether
  \<open>git clone url dir\<close> succeeds, in which case \<open>dir\<close> exists afterwards. A failing clone
  ends the script at once with a non-zero status. The result is the status (true for
  exit code 0), the directories present, and what the loop did, in order.
\<close>

datatype step = Skipped string | GitClone string string

definition BASE_URL :: string where
  "BASE_URL = ''https://github.com/anandroid''"

text \<open>The array as written: in \<open>"terraform-gcp",\<close> the comma is outside the quotes and bash
  arrays are separated by white space, so the comma belongs to the fifth word.\<close>

definition REPOS :: "string list" where
  "REPOS = [''pulse'', ''pulse-ui'', ''pulse-apis'', ''pulse-type-registry'', ''terraform-gcp,'',
            ''n8n-sync'']"

fun clone_loop ::
    "(string \<Rightarrow> string \<Rightarrow> bool) \<Rightarrow> string list \<Rightarrow> string set \<Rightarrow> bool \<times> string set \<times> step list" where
  "clone_loop git [] dirs = (True, dirs, [])"
| "clone_loop git (name # rest) dirs =
     (if name \<in> dirs then
        (case clone_loop git rest dirs of (ok, dirs', steps) \<Rightarrow> (ok, dirs', Skipped name # steps))
      else if git (BASE_URL @ ''/'' @ name @ ''.git'') name then
        (case clone_loop git rest (insert name dirs) of
           (ok, dirs', steps) \<Rightarrow> (ok, dirs', GitClone (BASE_URL @ ''/'' @ name @ ''.git'') name # steps))
      else (False, dirs, [GitClone (BASE_URL @ ''/'' @ name @ ''.git'') name]))"

definition setup_repos :: "(string \<Rightarrow> string \<Rightarrow> bool) \<Rightarrow> string set \<Rightarrow> bool \<times> string set \<times> step list" where
  "setup_repos git dirs = clone_loop git REPOS dirs"

text \<open>The six repositories of the project, as the repository's guide lists them
  (Repository Overview of the Pulse Engineering Guide).\<close>

definition expected_repos :: "string list" where
  "expected_repos = [''pulse'', ''pulse-ui'', ''pulse-apis'', ''pulse-type-registry'', ''terraform-gcp'',
                     ''n8n-sync'']"

section \<open>Vocabulary of the properties\<close>

text \<open>What \<open>getSecret\<close> returns for a secret when a client is present: the payload, or
  nothing when the fetch fails.\<close>

definition fetched :: "world \<Rightarrow> string \<Rightarrow> string \<Rightarrow> string option" where
  "fetched w project sid =
     (case accessSecretVersion w (secret_version_name project sid) of
        Inl e \<Rightarrow> None | Inr v \<Rightarrow> v)"

text \<open>The net effect of \<open>loadFromSecretManager\<close> on the state, in terms of \<open>fetched\<close>.\<close>

definition after_managed :: "world \<Rightarrow> string \<Rightarrow> manager \<Rightarrow> manager" where
  "after_managed w p m =
     (let m1 = (if truthy_str (fetched w p ''supabase-url'') \<and> truthy_str (fetched w p ''supabase-anon-key'')
                then set_supabase \<lparr>url = or_str (fetched w p ''supabase-url'') [],
                        anonKey = or_str (fetched w p ''supabase-anon-key'') [],
                        serviceRoleKey = fetched w p ''supabase-service-role-key''\<rparr> m else m)
      in if truthy_str (fetched w p ''github-token'')
         then set_github \<lparr>token = or_str (fetched w p ''github-token'') []\<rparr> m1 else m1)"

text \<open>The states the code produces: a sub-record that is present has its required
  field non-empty (every assignment to a sub-record is guarded by that field's truthiness).\<close>

definition valid :: "manager \<Rightarrow> bool" where
  "valid this =
     ((case supabase (secrets this) of None \<Rightarrow> True | Some c \<Rightarrow> url c \<noteq> []) \<and>
      (case github (secrets this) of None \<Rightarrow> True | Some c \<Rightarrow> token c \<noteq> []) \<and>
      (case gcloud (secrets this) of None \<Rightarrow> True | Some c \<Rightarrow> projectId c \<noteq> []))"

text \<open>The six credential fields, \<open>None\<close> when unset, and the relation "every field set
  in \<open>a\<close> has the same value in \<open>b\<close>".\<close>

definition credential_fields :: "manager \<Rightarrow> string option list" where
  "credential_fields this =
     [supabase_url this, supabase_anonKey this,
      Option.bind (supabase (secrets this)) serviceRoleKey,
      github_token this, gcloud_projectId this,
      Option.bind (gcloud (secrets this)) applicationCredentials]"

definition kept :: "manager \<Rightarrow> manager \<Rightarrow> bool" where
  "kept a b = list_all2 (\<lambda>x y. x \<noteq> None \<longrightarrow> y = x) (credential_fields a) (credential_fields b)"

text \<open>The column a filter call constrains, and the filter calls of a chain on one column.\<close>

fun filter_column :: "builder_call \<Rightarrow> string option" where
  "filter_column (Is k _) = Some k"
| "filter_column (Eq k _) = Some k"
| "filter_column (Neq k _) = Some k"
| "filter_column (Gt k _) = Some k"
| "filter_column (Gte k _) = Some k"
| "filter_column (Lt k _) = Some k"
| "filter_column (Lte k _) = Some k"
| "filter_column (Like k _) = Some k"
| "filter_column (Ilike k _) = Some k"
| "filter_column (In k _) = Some k"
| "filter_column _ = None"

definition predicates_on :: "string \<Rightarrow> builder_call list \<Rightarrow> builder_call list" where
  "predicates_on k q = filter (\<lambda>c. filter_column c = Some k) q"

text \<open>The operator tags the \<open>switch\<close> of \<open>query\<close> has a case for.\<close>

definition supported_operators :: "string list" where
  "supported_operators = [''eq'', ''neq'', ''gt'', ''gte'', ''lt'', ''lte'', ''like'', ''ilike'', ''in'']"

subsection \<open>Concrete worlds\<close>

text \<open>No CLI, no secret store, an empty environment, no network; \<open>fs.existsSync\<close> is
  not a function.\<close>

definition offline_world :: world where
  "offline_world =
     \<lparr>execSync = (\<lambda>cmd. Inl (Error ''command not found'')),
      existsSync = (\<lambda>p. Inl (TypeError ''fs.existsSync is not a function'')),
      newSecretManagerServiceClient = None,
      accessSecretVersion = (\<lambda>name. Inl (Error ''NOT_FOUND'')),
      env = (\<lambda>v. None),
      createClient = (\<lambda>u k. None),
      postgrest = (\<lambda>q. Inl (Error ''fetch failed'')),
      rpc_request = (\<lambda>f p. Inl (Error ''fetch failed'')),
      newOctokit = (\<lambda>t. None),
      octokit_request = (\<lambda>e p. Inl (Error ''fetch failed'')),
      newStorage = (\<lambda>p. None),
      getFiles = (\<lambda>b q. Inl (Error ''fetch failed'')),
      download = (\<lambda>b f. Inl (Error ''fetch failed'')),
      save = (\<lambda>b f c t. Inl (Error ''fetch failed'')),
      base64_decode = (\<lambda>s. s)\<rparr>"

text \<open>A configured CLI (project \<open>demo\<close>) whose credentials-path command prints an empty
  line, so that \<open>fs.existsSync\<close> is never reached and the store client is constructed; a
  secret store holding the database URL and public key only; and an environment whose
  database variables differ from the store's.\<close>

definition managed_world :: world where
  "managed_world = offline_world
     \<lparr>execSync := (\<lambda>cmd. if cmd = ''gcloud config get-value project''
                         then Inr (''demo'' @ [CHR 0x0A])
                       else if cmd = adc_path_command
                         then Inr [CHR 0x0A]
                       else Inl (Error ''command failed'')),
      accessSecretVersion := (\<lambda>name.
         if name = ''projects/demo/secrets/supabase-url/versions/latest''
           then Inr (Some ''https://managed.example'')
         else if name = ''projects/demo/secrets/supabase-anon-key/versions/latest''
           then Inr (Some ''managed-key'')
         else Inl (Error ''NOT_FOUND'')),
      env := (\<lambda>v. if v = ''SUPABASE_URL'' then Some ''https://env.example''
                   else if v = ''SUPABASE_ANON_KEY'' then Some ''env-key'' else None)\<rparr>"

text \<open>The state the constructor produces in \<open>managed_world\<close>.\<close>

definition managed_manager :: manager where
  "managed_manager =
      \<lparr>secrets = \<lparr>supabase = None, github = None,
                   gcloud = Some \<lparr>projectId = ''demo'', applicationCredentials = None\<rparr>\<rparr>,
       secretClient = Some SecretManagerServiceClient\<rparr>"

text \<open>Only the database URL is in the environment; nothing else is reachable.\<close>

definition url_only_world :: world where
  "url_only_world = offline_world
     \<lparr>env := (\<lambda>v. if v = ''SUPABASE_URL'' then Some ''https://env.example'' else None)\<rparr>"

text \<open>As \<open>managed_world\<close>, but the store also holds the source-hosting token and refuses
  the privileged key.\<close>

definition partial_store_world :: world where
  "partial_store_world = managed_world
     \<lparr>accessSecretVersion := (\<lambda>name.
         if name = ''projects/demo/secrets/supabase-url/versions/latest''
           then Inr (Some ''https://managed.example'')
         else if name = ''projects/demo/secrets/supabase-anon-key/versions/latest''
           then Inr (Some ''managed-key'')
         else if name = ''projects/demo/secrets/github-token/versions/latest''
           then Inr (Some ''ghp_managed'')
         else Inl (Error ''PERMISSION_DENIED''))\<rparr>"


text \<open>Every source offers every credential, each with a different value; the
  credentials-path command prints an empty line, as in \<open>managed_world\<close>.\<close>

definition layered_world :: world where
  "layered_world = partial_store_world
     \<lparr>execSync := (\<lambda>cmd. if cmd = ''gcloud config get-value project''
                         then Inr (''demo'' @ [CHR 0x0A])
                       else if cmd = adc_path_command
                         then Inr [CHR 0x0A]
                       else if cmd = ''gcloud auth application-default print-access-token 2>/dev/null''
                         then Inr (''ya29.cli'' @ [CHR 0x0A])
                       else Inl (Error ''command failed'')),
      env := (\<lambda>v. if v = ''SUPABASE_URL'' then Some ''https://env.example''
                   else if v = ''SUPABASE_ANON_KEY'' then Some ''env-key''
                   else if v = ''SUPABASE_SERVICE_ROLE_KEY'' then Some ''env-service-key''
                   else if v = ''GITHUB_TOKEN'' then Some ''env-token''
                   else if v = ''GCLOUD_PROJECT'' then Some ''env-project''
                   else None)\<rparr>"

subsection \<open>Concrete adapters and arguments\<close>

definition ready_supabase :: SupabaseIntegration where
  "ready_supabase = \<lparr>client = Some (SupabaseClient ''https://managed.example'' ''managed-key'')\<rparr>"

definition null_filter_args :: SupabaseQueryArgs where
  "null_filter_args =
     \<lparr>query_table = ''users'', query_select = None,
      query_filter = Some [(''deleted_at'', JNull), (''city'', JStr ''Paris'')],
      query_limit = None, query_orderBy = None\<rparr>"

definition tagged_filter_args :: SupabaseQueryArgs where
  "tagged_filter_args =
     \<lparr>query_table = ''games'', query_select = Some ''id,score'',
      query_filter = Some
        [(''score'', JObj [(''operator'', JStr ''gte''), (''value'', JNum 10)]),
         (''name'', JObj [(''operator'', JStr ''regex''), (''value'', JStr ''^a'')]),
         (''city'', JStr ''Paris'')],
      query_limit = Some 5, query_orderBy = Some \<lparr>column = ''score'', ascending = None\<rparr>\<rparr>"

definition empty_tag_args :: SupabaseQueryArgs where
  "empty_tag_args =
     \<lparr>query_table = ''games'', query_select = None,
      query_filter = Some
        [(''score'', JObj [(''operator'', JStr ''''), (''value'', JNum 10)]),
         (''city'', JStr ''Paris'')],
      query_limit = None, query_orderBy = None\<rparr>"

definition demo_insert :: SupabaseInsertArgs where
  "demo_insert = \<lparr>insert_table = ''games'', insert_data = JObj [(''score'', JNum 10)]\<rparr>"

definition demo_update :: SupabaseUpdateArgs where
  "demo_update = \<lparr>update_table = ''games'', update_data = JObj [(''score'', JNum 11)],
                   update_filter = [(''id'', JNum 1)]\<rparr>"

definition demo_delete :: SupabaseDeleteArgs where
  "demo_delete = \<lparr>delete_table = ''games'', delete_filter = [(''id'', JNum 1)]\<rparr>"

definition demo_rpc :: SupabaseRpcArgs where
  "demo_rpc = \<lparr>functionName = ''top_scores'', params = None\<rparr>"

definition demo_repo :: GitHubRepoArgs where
  "demo_repo = \<lparr>owner = ''anandroid'', repo = ''pulse''\<rparr>"

definition demo_issues :: GitHubIssueArgs where
  "demo_issues = \<lparr>owner = ''anandroid'', repo = ''pulse'', issues_state = None,
                   issues_labels = Some [''bug'', ''ui''], assignee = None, creator = None,
                   issues_per_page = None\<rparr>"

definition demo_new_issue :: GitHubCreateIssueArgs where
  "demo_new_issue = \<lparr>owner = ''anandroid'', repo = ''pulse'', issue_title = ''Crash'',
                      issue_body = None, issue_labels = None, assignees = None\<rparr>"

definition demo_pulls :: GitHubPRArgs where
  "demo_pulls = \<lparr>owner = ''anandroid'', repo = ''pulse'', pulls_state = Some ''all'',
                  pulls_head = None, pulls_base = None, pulls_per_page = Some 5\<rparr>"

definition demo_new_pull :: GitHubCreatePRArgs where
  "demo_new_pull = \<lparr>owner = ''anandroid'', repo = ''pulse'', pr_title = ''Fix crash'',
                     pr_body = None, pr_head = ''fix'', pr_base = ''main'', draft = None\<rparr>"

definition demo_file :: GitHubFileArgs where
  "demo_file = \<lparr>owner = ''anandroid'', repo = ''pulse'', path = ''README.md'', ref = None\<rparr>"

definition demo_search :: GitHubSearchArgs where
  "demo_search = \<lparr>search_query = ''pulse'', search_type = Repositories, search_per_page = None\<rparr>"

definition demo_list :: GCloudStorageListArgs where
  "demo_list = \<lparr>list_bucket = ''pulse-data'', list_prefix = None, list_delimiter = None,
                 maxResults = None\<rparr>"

definition demo_read :: GCloudStorageReadArgs where
  "demo_read = \<lparr>read_bucket = ''pulse-data'', read_file = ''a.txt''\<rparr>"

definition demo_write :: GCloudStorageWriteArgs where
  "demo_write = \<lparr>write_bucket = ''pulse-data'', write_file = ''a.txt'', content = ''hello'',
                  contentType = None\<rparr>"

definition demo_secret :: GCloudSecretArgs where
  "demo_secret = \<lparr>secretId = ''github-token'', version = None\<rparr>"

definition demo_command :: GCloudCommandArgs where
  "demo_command = \<lparr>command = ''projects list'', command_args = Some [''--format=json'']\<rparr>"

text \<open>A world whose only working command lists the projects.\<close>

definition cli_world :: world where
  "cli_world = offline_world
     \<lparr>execSync := (\<lambda>cmd. if cmd = ''gcloud projects list --format=json''
                         then Inr (''[]'' @ [CHR 0x0A]) else Inl (Error ''command failed''))\<rparr>"

section \<open>Properties of the secrets manager\<close>

subsection \<open>Evaluation of the stages\<close>

lemmas prog_defs = ret_def throw_def andThen_def try_catch_def getState_def modify_def
  external_def attempt_def construct_def console_error_def

lemma getSecret_eq:
  "secretClient m = Some c \<Longrightarrow>
   getSecret w p sid m = (Inr (fetched w p sid), m, [AccessSecretVersion (secret_version_name p sid)])"
  by (simp add: getSecret_def prog_defs fetched_def Let_def split: sum.splits)

lemma secretClient_set [simp]:
  "secretClient (set_supabase a m) = secretClient m"
  "secretClient (set_github b m) = secretClient m"
  "secretClient (set_gcloud d m) = secretClient m"
  by (simp_all add: set_supabase_def set_github_def set_gcloud_def)

lemma loadFromSecretManager_eq:
  assumes "secretClient m = Some c" "gcloud (secrets m) = Some g"
  shows "loadFromSecretManager w m =
     (Inr (), after_managed w (projectId g) m,
      map (\<lambda>sid. AccessSecretVersion (secret_version_name (projectId g) sid))
        [''supabase-url'', ''supabase-anon-key'', ''supabase-service-role-key'', ''github-token''])"
proof -
  have gs: "\<And>sid m'. secretClient m' = Some c \<Longrightarrow> getSecret w (projectId g) sid m' =
      (Inr (fetched w (projectId g) sid), m', [AccessSecretVersion (secret_version_name (projectId g) sid)])"
    by (rule getSecret_eq)
  show ?thesis
    using assms
    by (simp add: loadFromSecretManager_def after_managed_def andThen_def try_catch_def getState_def
        modify_def ret_def console_error_def gs Let_def)
qed

lemmas field_defs = supabase_url_def supabase_anonKey_def github_token_def gcloud_projectId_def
  set_supabase_def set_github_def set_gcloud_def truthy_str_def or_str_def

lemma try_catch_console [simp]: "fst (try_catch p (\<lambda>e. console_error) s) = Inr ()"
  by (simp add: try_catch_def console_error_def ret_def split: prod.splits sum.splits)


lemma loadFromSecretManager_outcome: "outcome (loadFromSecretManager w m) = Inr ()"
  by (simp add: loadFromSecretManager_def outcome_def)

lemma loadFromGCloudConfig_eq:
  "loadFromGCloudConfig w m =
     (Inr (),
      (case execSync w ''gcloud auth application-default print-access-token 2>/dev/null'' of
         Inl e \<Rightarrow> m
       | Inr out \<Rightarrow> if trim out \<noteq> [] \<and> \<not> truthy_str (github_token m)
                   then set_github \<lparr>token = trim out\<rparr> m else m),
      [Exec ''gcloud auth application-default print-access-token 2>/dev/null''])"
  by (simp add: loadFromGCloudConfig_def prog_defs Let_def split: sum.splits)


lemma loadFromEnvironment_calls: "calls (loadFromEnvironment w m) = []"
  by (simp add: loadFromEnvironment_def prog_defs calls_def)

lemma loadFromEnvironment_supabase:
  "supabase (secrets (state_of (loadFromEnvironment w m))) =
     (if \<not> truthy_str (supabase_url m) \<and> truthy_str (env w ''SUPABASE_URL'')
      then Some \<lparr>url = or_str (env w ''SUPABASE_URL'') [],
               anonKey = or_str (env w ''SUPABASE_ANON_KEY'') [],
               serviceRoleKey = env w ''SUPABASE_SERVICE_ROLE_KEY''\<rparr>
      else supabase (secrets m))"
  by (simp add: loadFromEnvironment_def prog_defs state_of_def field_defs)

lemma loadFromEnvironment_github:
  "github (secrets (state_of (loadFromEnvironment w m))) =
     (if \<not> truthy_str (github_token m) \<and> truthy_str (env w ''GITHUB_TOKEN'')
      then Some \<lparr>token = or_str (env w ''GITHUB_TOKEN'') []\<rparr>
      else github (secrets m))"
  by (simp add: loadFromEnvironment_def prog_defs state_of_def field_defs)

lemma loadFromEnvironment_gcloud:
  "gcloud (secrets (state_of (loadFromEnvironment w m))) =
     (if \<not> truthy_str (gcloud_projectId m) \<and> truthy_str (env w ''GCLOUD_PROJECT'')
      then Some (case gcloud (secrets m) of
                 None \<Rightarrow> \<lparr>projectId = or_str (env w ''GCLOUD_PROJECT'') [], applicationCredentials = None\<rparr>
               | Some g \<Rightarrow> g\<lparr>projectId := or_str (env w ''GCLOUD_PROJECT'') []\<rparr>)
      else gcloud (secrets m))"
  by (simp add: loadFromEnvironment_def prog_defs state_of_def field_defs)

lemma loadFromEnvironment_client:
  "secretClient (state_of (loadFromEnvironment w m)) = secretClient m"
  by (simp add: loadFromEnvironment_def prog_defs state_of_def field_defs)

lemma andThen_state:
  "fst (p s) = Inr x \<Longrightarrow> state_of (andThen p f s) = state_of (f x (state_of (p s)))"
  by (cases "p s") (auto simp: andThen_def state_of_def split: prod.splits sum.splits)


lemma andThen_calls:
  "fst (p s) = Inr x \<Longrightarrow> calls (andThen p f s) = calls (p s) @ calls (f x (state_of (p s)))"
  by (cases "p s") (auto simp: andThen_def state_of_def calls_def split: prod.splits sum.splits)

lemma managed_store_stage_outcome: "fst (managed_store_stage w m) = Inr ()"
  using loadFromSecretManager_outcome [of w m]
  by (simp add: managed_store_stage_def andThen_def getState_def ret_def outcome_def)

lemma loadFromGCloudConfig_outcome: "fst (loadFromGCloudConfig w m) = Inr ()"
  by (simp add: loadFromGCloudConfig_eq)

lemma loadSecrets_state:
  "state_of (loadSecrets w m) =
     state_of (loadFromEnvironment w (state_of (loadFromGCloudConfig w (state_of (managed_store_stage w m)))))"
  by (simp add: loadSecrets_def andThen_state [OF managed_store_stage_outcome]
      andThen_state [OF loadFromGCloudConfig_outcome])


lemma managed_store_stage_state:
  assumes "secretClient m = Some c" "gcloud (secrets m) = Some g" "projectId g \<noteq> []"
  shows "state_of (managed_store_stage w m) = after_managed w (projectId g) m"
  using assms
  by (simp add: managed_store_stage_def andThen_def getState_def state_of_def
      loadFromSecretManager_eq [OF assms(1,2)] gcloud_projectId_def truthy_str_def)

lemma loadFromGCloudConfig_supabase:
  "supabase (secrets (state_of (loadFromGCloudConfig w m))) = supabase (secrets m)"
  by (simp add: loadFromGCloudConfig_eq state_of_def set_github_def split: sum.splits)

lemma new_managed_world:
  "new_SecretsManager managed_world =
     (Inr (), managed_manager,
      [Exec ''gcloud config get-value project'', Exec adc_path_command])"
  by (simp add: new_SecretsManager_def initializeGCloud_def managed_world_def offline_world_def
      prog_defs empty_manager_def trim_def is_space_def set_gcloud_def adc_path_command_def
      managed_manager_def)

lemma new_offline:
  "execSync w ''gcloud config get-value project'' = Inl e \<Longrightarrow>
   new_SecretsManager w = (Inr (), empty_manager, [Exec ''gcloud config get-value project''])"
  by (simp add: new_SecretsManager_def initializeGCloud_def prog_defs)

lemma managed_store_stage_skip:
  "secretClient m = None \<Longrightarrow> managed_store_stage w m = (Inr (), m, [])"
  by (simp add: managed_store_stage_def prog_defs)

lemma empty_manager_fields [simp]:
  "secretClient empty_manager = None"
  "supabase (secrets empty_manager) = None"
  "github (secrets empty_manager) = None"
  "gcloud (secrets empty_manager) = None"
  by (simp_all add: empty_manager_def)

lemma getSecret_absent:
  "secretClient m = None \<Longrightarrow> getSecret w p sid m = (Inr None, m, [])"
  by (simp add: getSecret_def prog_defs Let_def)

lemma getSecret_outcome: "\<exists>v. outcome (getSecret w p sid m) = Inr v"
  by (cases "secretClient m") (auto simp: getSecret_absent getSecret_eq outcome_def)

lemma after_managed_github:
  "fetched w p ''github-token'' = Some t \<Longrightarrow> t \<noteq> [] \<Longrightarrow>
   github (secrets (after_managed w p m)) = Some \<lparr>token = t\<rparr>"
  by (simp add: after_managed_def Let_def field_defs)

lemma after_managed_supabase:
  "fetched w p ''supabase-url'' = Some u \<Longrightarrow> u \<noteq> [] \<Longrightarrow>
   fetched w p ''supabase-anon-key'' = Some k \<Longrightarrow> k \<noteq> [] \<Longrightarrow>
   supabase (secrets (after_managed w p m)) =
     Some \<lparr>url = u, anonKey = k, serviceRoleKey = fetched w p ''supabase-service-role-key''\<rparr>"
  by (simp add: after_managed_def Let_def field_defs)



text \<open>When the credentials-path command prints a path and \<open>fs.existsSync\<close> throws, the
  constructor keeps the project id and stops before the store client is constructed.\<close>

lemma new_existsSync_throws:
  assumes "execSync w ''gcloud config get-value project'' = Inr out" and "trim out \<noteq> []"
    and "execSync w adc_path_command = Inr out2" and "trim out2 \<noteq> []"
    and "existsSync w (trim out2) = Inl e"
  shows "state_of (new_SecretsManager w) =
           set_gcloud \<lparr>projectId = trim out, applicationCredentials = None\<rparr> empty_manager"
  using assms
  by (simp add: new_SecretsManager_def initializeGCloud_def prog_defs state_of_def Let_def)







lemma trim_nonempty_valid:
  "t \<noteq> [] \<Longrightarrow> valid m \<Longrightarrow> valid (set_github \<lparr>token = t\<rparr> m)"
  by (simp add: valid_def set_github_def)

lemma valid_after_managed: "valid m \<Longrightarrow> valid (after_managed w p m)"
  by (auto simp: valid_def after_managed_def Let_def field_defs split: option.splits)

lemma managed_store_stage_cases:
  "state_of (managed_store_stage w m) = m \<or>
   (\<exists>g. gcloud (secrets m) = Some g \<and> state_of (managed_store_stage w m) = after_managed w (projectId g) m)"
proof (cases "secretClient m \<noteq> None \<and> truthy_str (gcloud_projectId m)")
  case True
  then obtain c g where c: "secretClient m = Some c" and g: "gcloud (secrets m) = Some g"
    and p: "projectId g \<noteq> []"
    by (auto simp: gcloud_projectId_def truthy_str_def split: option.splits)
  from managed_store_stage_state [OF c g p] g show ?thesis by blast
next
  case False
  then have "managed_store_stage w m = (Inr (), m, [])"
    by (auto simp: managed_store_stage_def prog_defs)
  then show ?thesis by (simp add: state_of_def)
qed

lemma valid_managed_store_stage: "valid m \<Longrightarrow> valid (state_of (managed_store_stage w m))"
  using managed_store_stage_cases [of w m] by (auto simp: valid_after_managed)

lemma valid_loadFromGCloudConfig: "valid m \<Longrightarrow> valid (state_of (loadFromGCloudConfig w m))"
  by (auto simp: loadFromGCloudConfig_eq state_of_def trim_nonempty_valid split: sum.splits)

lemma valid_loadFromEnvironment: "valid m \<Longrightarrow> valid (state_of (loadFromEnvironment w m))"
  by (auto simp: valid_def loadFromEnvironment_supabase loadFromEnvironment_github
      loadFromEnvironment_gcloud truthy_str_def or_str_def split: option.splits)

lemma valid_loadSecrets: "valid m \<Longrightarrow> valid (state_of (loadSecrets w m))"
  by (simp add: loadSecrets_state valid_managed_store_stage valid_loadFromGCloudConfig
      valid_loadFromEnvironment)

lemma valid_new_SecretsManager: "valid (state_of (new_SecretsManager w))"
  by (auto simp: new_SecretsManager_def initializeGCloud_def prog_defs state_of_def Let_def
      valid_def empty_manager_def set_gcloud_def split: sum.splits option.splits)

lemma kept_loadFromGCloudConfig: "valid m \<Longrightarrow> kept m (state_of (loadFromGCloudConfig w m))"
  by (auto simp: kept_def credential_fields_def loadFromGCloudConfig_eq state_of_def valid_def
      field_defs split: sum.splits option.splits)

lemma kept_loadFromEnvironment: "valid m \<Longrightarrow> kept m (state_of (loadFromEnvironment w m))"
  by (auto simp: kept_def credential_fields_def valid_def loadFromEnvironment_supabase
      loadFromEnvironment_github loadFromEnvironment_gcloud field_defs split: option.splits)

lemma kept_trans: "kept a b \<Longrightarrow> kept b c \<Longrightarrow> kept a c"
  by (auto simp: kept_def credential_fields_def)

lemma new_layered_world: "state_of (new_SecretsManager layered_world) = managed_manager"
  by (simp add: new_SecretsManager_def initializeGCloud_def layered_world_def partial_store_world_def
      managed_world_def offline_world_def
      prog_defs empty_manager_def trim_def is_space_def set_gcloud_def adc_path_command_def
      managed_manager_def state_of_def)

section \<open>Properties of the database query\<close>

lemma apply_filter_append: "apply_filter q e = q @ apply_filter [] e"
  by (simp add: apply_filter_def Let_def)

lemma foldl_apply_filter: "foldl apply_filter q es = q @ concat (map (apply_filter []) es)"
proof (induction es arbitrary: q)
  case Nil
  then show ?case by simp
next
  case (Cons e es)
  have "foldl apply_filter q (e # es) = foldl apply_filter (apply_filter q e) es" by simp
  also have "\<dots> = apply_filter q e @ concat (map (apply_filter []) es)" by (rule Cons.IH)
  also have "\<dots> = q @ apply_filter [] e @ concat (map (apply_filter []) es)"
    by (subst apply_filter_append) simp
  finally show ?case by simp
qed

lemma apply_filter_null: "apply_filter q (k, JNull) = q @ [Is k JNull]"
  by (simp add: apply_filter_def)

lemma apply_filter_key:
  "c \<in> set (apply_filter [] (k, v)) \<Longrightarrow>
     c \<in> {Is k JNull, Eq k v, Eq k (get_prop v ''value''), Neq k (get_prop v ''value''),
          Gt k (get_prop v ''value''), Gte k (get_prop v ''value''), Lt k (get_prop v ''value''),
          Lte k (get_prop v ''value''), Like k (get_prop v ''value''), Ilike k (get_prop v ''value''),
          In k (get_prop v ''value'')}"
  by (auto simp: apply_filter_def Let_def split: if_splits)

lemma apply_filter_column: "c \<in> set (apply_filter [] e) \<Longrightarrow> filter_column c = Some (fst e)"
  using apply_filter_key [of c "fst e" "snd e"] by auto

lemma predicates_on_other: "fst e \<noteq> k \<Longrightarrow> predicates_on k (apply_filter [] e) = []"
  by (auto simp: predicates_on_def filter_empty_conv dest: apply_filter_column)

lemma predicates_on_others:
  "k \<notin> fst ` set es \<Longrightarrow> predicates_on k (concat (map (apply_filter []) es)) = []"
  by (induction es) (auto simp: predicates_on_def filter_empty_conv dest: apply_filter_column)

lemma predicates_on_append [simp]: "predicates_on k (a @ b) = predicates_on k a @ predicates_on k b"
  by (simp add: predicates_on_def)

lemma predicates_on_same:
  "predicates_on (fst e) (apply_filter [] e) = apply_filter [] e"
  by (auto simp: predicates_on_def filter_id_conv dest: apply_filter_column)

lemma build_query_eq:
  "build_query args =
     [From (query_table args), Select (or_str (query_select args) ''*'')]
     @ concat (map (apply_filter []) (case query_filter args of None \<Rightarrow> [] | Some es \<Rightarrow> es))
     @ (case query_orderBy args of
          None \<Rightarrow> []
        | Some ob \<Rightarrow> [Order (column ob) (case ascending ob of None \<Rightarrow> True | Some b \<Rightarrow> b)])
     @ (case query_limit args of None \<Rightarrow> [] | Some n \<Rightarrow> if n \<noteq> 0 then [Limit n] else [])"
  by (simp add: build_query_def Let_def foldl_apply_filter split: option.splits)

lemma predicates_on_build_query:
  assumes "query_filter args = Some es" and "distinct (map fst es)" and "(k, v) \<in> set es"
  shows "predicates_on k (build_query args) = apply_filter [] (k, v)"
proof -
  from assms(3) obtain xs ys where es: "es = xs @ (k, v) # ys"
    by (auto simp: in_set_conv_decomp)
  with assms(2) have nx: "k \<notin> fst ` set xs" and ny: "k \<notin> fst ` set ys"
    by auto
  have "predicates_on k (concat (map (apply_filter []) es)) = apply_filter [] (k, v)"
    using predicates_on_others [OF nx] predicates_on_others [OF ny] predicates_on_same [of "(k, v)"]
    by (simp add: es)
  then show ?thesis
    by (simp add: build_query_eq assms(1) predicates_on_def split: option.splits)
qed

lemma Supabase_query_calls:
  "client this = Some c \<Longrightarrow> calls (Supabase_query w args this) = [Postgrest (build_query args)]"
  by (simp add: Supabase_query_def await_data_def prog_defs calls_def split: sum.splits option.splits)

lemma build_null_filter_args:
  "build_query null_filter_args =
     [From ''users'', Select ''*'', Is ''deleted_at'' JNull, Eq ''city'' (JStr ''Paris'')]"
  by (simp add: build_query_def null_filter_args_def apply_filter_def or_str_def Let_def)

lemma apply_filter_gte:
  "get_prop g ''operator'' = JStr ''gte'' \<Longrightarrow> apply_filter q (k, g) = q @ [Gte k (get_prop g ''value'')]"
  by (cases g) (simp_all add: apply_filter_def Let_def)

lemma truthy_operator_object: "truthy (get_prop u ''operator'') \<Longrightarrow> is_object u \<and> u \<noteq> JNull"
  by (cases u) simp_all

lemma apply_filter_unsupported:
  assumes "truthy (get_prop u ''operator'')"
    and "get_prop u ''operator'' \<notin> JStr ` set supported_operators"
  shows "apply_filter q (k, u) = q"
  using assms truthy_operator_object [OF assms(1)]
  by (simp add: apply_filter_def Let_def supported_operators_def)

lemma apply_filter_untagged:
  "f \<noteq> JNull \<Longrightarrow> \<not> truthy (get_prop f ''operator'') \<Longrightarrow> apply_filter q (k, f) = q @ [Eq k f]"
  by (simp add: apply_filter_def Let_def)

lemma build_tagged_filter_args:
  "build_query tagged_filter_args =
     [From ''games'', Select ''id,score'', Gte ''score'' (JNum 10), Eq ''city'' (JStr ''Paris''),
      Order ''score'' True, Limit 5]"
  by (simp add: build_query_def tagged_filter_args_def apply_filter_def or_str_def Let_def)

lemma build_empty_tag_args:
  "build_query empty_tag_args =
     [From ''games'', Select ''*'',
      Eq ''score'' (JObj [(''operator'', JStr ''''), (''value'', JNum 10)]),
      Eq ''city'' (JStr ''Paris'')]"
  by (simp add: build_query_def empty_tag_args_def apply_filter_def or_str_def Let_def)

section \<open>Properties of the adapters\<close>

lemma Supabase_uninitialized:
  assumes "client this = None"
  shows "Supabase_query w qa this = (Inl (Error ''Supabase client not initialized''), this, [])"
    and "Supabase_insert w ia this = (Inl (Error ''Supabase client not initialized''), this, [])"
    and "Supabase_update w ua this = (Inl (Error ''Supabase client not initialized''), this, [])"
    and "Supabase_delete w da this = (Inl (Error ''Supabase client not initialized''), this, [])"
    and "Supabase_rpc w ra this = (Inl (Error ''Supabase client not initialized''), this, [])"
  using assms
  by (simp_all add: Supabase_query_def Supabase_insert_def Supabase_update_def Supabase_delete_def
      Supabase_rpc_def andThen_def getState_def throw_def)

lemma GitHub_uninitialized:
  assumes "octokit this = None"
  shows "GitHub_getRepository w a1 this = (Inl (Error ''GitHub client not initialized''), this, [])"
    and "GitHub_listIssues w a2 this = (Inl (Error ''GitHub client not initialized''), this, [])"
    and "GitHub_createIssue w a3 this = (Inl (Error ''GitHub client not initialized''), this, [])"
    and "GitHub_listPullRequests w a4 this = (Inl (Error ''GitHub client not initialized''), this, [])"
    and "GitHub_createPullRequest w a5 this = (Inl (Error ''GitHub client not initialized''), this, [])"
    and "GitHub_getFileContent w a6 this = (Inl (Error ''GitHub client not initialized''), this, [])"
    and "GitHub_search w a7 this = (Inl (Error ''GitHub client not initialized''), this, [])"
  using assms
  by (simp_all add: GitHub_getRepository_def GitHub_listIssues_def GitHub_createIssue_def
      GitHub_listPullRequests_def GitHub_createPullRequest_def GitHub_getFileContent_def
      GitHub_search_def andThen_def getState_def throw_def)

lemma GCloud_storage_uninitialized:
  assumes "storage this = None"
  shows "GCloud_listBucketContents w a1 this =
           (Inl (Error ''Google Cloud Storage client not initialized''), this, [])"
    and "GCloud_readFile w a2 this =
           (Inl (Error ''Google Cloud Storage client not initialized''), this, [])"
    and "GCloud_writeFile w a3 this =
           (Inl (Error ''Google Cloud Storage client not initialized''), this, [])"
  using assms
  by (simp_all add: GCloud_listBucketContents_def GCloud_readFile_def GCloud_writeFile_def
      andThen_def getState_def throw_def)

lemma GCloud_secret_uninitialized:
  assumes "gcloud_secretClient this = None \<or> \<not> truthy_str (gcloud_project this)"
  shows "GCloud_getSecret w a this =
           (Inl (Error ''Google Cloud Secret Manager client not initialized''), this, [])"
  using assms
  by (auto simp: GCloud_getSecret_def andThen_def getState_def throw_def truthy_str_def
      split: option.splits)

lemma Supabase_initialize_failed:
  "outcome (Supabase_initialize w sm this) \<noteq> Inr True \<Longrightarrow>
   state_of (Supabase_initialize w sm this) = this"
  by (auto simp: Supabase_initialize_def prog_defs outcome_def state_of_def
      split: option.splits if_splits)

lemma GitHub_initialize_failed:
  "outcome (GitHub_initialize w sm this) \<noteq> Inr True \<Longrightarrow>
   state_of (GitHub_initialize w sm this) = this"
  by (auto simp: GitHub_initialize_def prog_defs outcome_def state_of_def
      split: option.splits if_splits)

lemma GCloud_initialize_no_project:
  "\<not> hasGCloud sm \<Longrightarrow> GCloud_initialize w sm this = (Inr False, this, [])"
  by (auto simp: GCloud_initialize_def hasGCloud_def getGCloudConfig_def gcloud_projectId_def
      truthy_str_def ret_def split: option.splits)

lemma GCloud_executeGCloudCommand_calls:
  "calls (GCloud_executeGCloudCommand w a this) =
     [Exec (''gcloud '' @ command a @ '' ''
            @ (case command_args a of None \<Rightarrow> [] | Some xs \<Rightarrow> js_join '' '' xs))]"
  by (simp add: GCloud_executeGCloudCommand_def prog_defs calls_def Let_def split: sum.splits)

text \<open>When the second constructor of \<open>GCloud_initialize\<close> throws, the method returns false
  with the storage client and the project id already stored.\<close>

lemma GCloud_initialize_partial:
  assumes "getGCloudConfig sm = Some config" and "projectId config \<noteq> []"
    and "newStorage w (projectId config) = None" and "newSecretManagerServiceClient w = Some e"
  shows "GCloud_initialize w sm this =
           (Inr False,
            this\<lparr>gcloud_project := Some (projectId config), storage := Some (Storage (projectId config))\<rparr>,
            [])"
  using assms by (simp add: GCloud_initialize_def prog_defs)

section \<open>Properties of the cloning script\<close>

text \<open>The loop itself is right for any list of distinct names: when every clone succeeds it
  skips exactly the names that are present and clones every other one, in order.\<close>

lemma clone_loop_all_succeed:
  assumes "\<And>url dir. git url dir" and "distinct repos"
  shows "clone_loop git repos dirs =
     (True, dirs \<union> set repos,
      map (\<lambda>r. if r \<in> dirs then Skipped r else GitClone (BASE_URL @ ''/'' @ r @ ''.git'') r) repos)"
  using assms(2)
proof (induction repos arbitrary: dirs)
  case Nil
  then show ?case by simp
next
  case (Cons r rs)
  then have d: "distinct rs" and n: "r \<notin> set rs" by simp_all
  have m: "map (\<lambda>x. if x \<in> insert r dirs then Skipped x else GitClone (BASE_URL @ ''/'' @ x @ ''.git'') x) rs
         = map (\<lambda>x. if x \<in> dirs then Skipped x else GitClone (BASE_URL @ ''/'' @ x @ ''.git'') x) rs"
    using n by (intro map_cong) auto
  show ?case
  proof (cases "r \<in> dirs")
    case True
    then show ?thesis by (auto simp: Cons.IH [OF d])
  next
    case False
    have g: "git (BASE_URL @ ''/'' @ r @ ''.git'') r" by (rule assms(1))
    from False g n show ?thesis by (auto simp: Cons.IH [OF d] m)
  qed
qed

section \<open>The claims\<close>

text \<open>
  Claim C1. Whatever the environment variables hold: when the managed-store stage runs
  (a client and a project id are present) and the secret store returns a non-empty
  database URL and a non-empty public key, the database sub-record holds exactly those
  two values after the managed-store stage, and \<open>getSupabaseConfig\<close> returns the same
  record after the whole load, environment fallback included. The privileged key is
  what the store returned for it.
\<close>

theorem env_fallback_keeps_managed_database:
  assumes "secretClient m = Some c" and "gcloud (secrets m) = Some g" and "projectId g \<noteq> []"
    and "accessSecretVersion w (secret_version_name (projectId g) ''supabase-url'') = Inr (Some u)"
    and "u \<noteq> []"
    and "accessSecretVersion w (secret_version_name (projectId g) ''supabase-anon-key'') = Inr (Some k)"
    and "k \<noteq> []"
  shows "getSupabaseConfig (state_of (managed_store_stage w m)) =
           Some \<lparr>url = u, anonKey = k,
                 serviceRoleKey = fetched w (projectId g) ''supabase-service-role-key''\<rparr>
       \<and> getSupabaseConfig (state_of (loadSecrets w m)) =
           Some \<lparr>url = u, anonKey = k,
                 serviceRoleKey = fetched w (projectId g) ''supabase-service-role-key''\<rparr>"
proof -
  let ?cfg = "\<lparr>url = u, anonKey = k,
                 serviceRoleKey = fetched w (projectId g) ''supabase-service-role-key''\<rparr>"
  have fu: "fetched w (projectId g) ''supabase-url'' = Some u"
    and fk: "fetched w (projectId g) ''supabase-anon-key'' = Some k"
    using assms(4,6) by (simp_all add: fetched_def)
  have s1: "supabase (secrets (state_of (managed_store_stage w m))) = Some ?cfg"
    using assms(5,7)
    by (simp add: managed_store_stage_state [OF assms(1-3)] after_managed_def fu fk field_defs Let_def)
  have s3: "supabase (secrets (state_of (loadSecrets w m))) = Some ?cfg"
    using assms(5)
    by (simp add: loadSecrets_state loadFromEnvironment_supabase loadFromGCloudConfig_supabase s1
        supabase_url_def truthy_str_def)
  show ?thesis using s1 s3 by (simp add: getSupabaseConfig_def)
qed

theorem env_fallback_keeps_managed_database_witness:
  "env managed_world ''SUPABASE_URL'' = Some ''https://env.example'' \<and>
   env managed_world ''SUPABASE_ANON_KEY'' = Some ''env-key'' \<and>
   state_of (new_SecretsManager managed_world) = managed_manager \<and>
   getSupabaseConfig (state_of (loadSecrets managed_world (state_of (new_SecretsManager managed_world)))) =
     Some \<lparr>url = ''https://managed.example'', anonKey = ''managed-key'', serviceRoleKey = None\<rparr>"
proof -
  let ?g = "\<lparr>projectId = ''demo'', applicationCredentials = None\<rparr>"
  have m: "state_of (new_SecretsManager managed_world) = managed_manager"
    by (simp add: new_managed_world state_of_def)
  have h1: "secretClient managed_manager = Some SecretManagerServiceClient"
    and h2: "gcloud (secrets managed_manager) = Some ?g"
    and h3: "projectId ?g \<noteq> []"
    by (simp_all add: managed_manager_def)
  have h4: "accessSecretVersion managed_world (secret_version_name (projectId ?g) ''supabase-url'')
              = Inr (Some ''https://managed.example'')"
    and h6: "accessSecretVersion managed_world (secret_version_name (projectId ?g) ''supabase-anon-key'')
              = Inr (Some ''managed-key'')"
    and sk: "fetched managed_world ''demo'' ''supabase-service-role-key'' = None"
    and e: "env managed_world ''SUPABASE_URL'' = Some ''https://env.example''"
           "env managed_world ''SUPABASE_ANON_KEY'' = Some ''env-key''"
    by (simp_all add: managed_world_def offline_world_def secret_version_name_def fetched_def)
  have h5: "''https://managed.example'' \<noteq> []" and h7: "''managed-key'' \<noteq> []"
    by simp_all
  from env_fallback_keeps_managed_database [OF h1 h2 h3 h4 h5 h6 h7]
  show ?thesis by (simp add: m sk e)
qed

text \<open>
  Claim C2, as amended. Every operational method of the three adapters other than
  \<open>executeGCloudCommand\<close> tests the client handle it uses first: with that handle unset
  the method throws the adapter's "... not initialized" error, leaves the adapter as it
  was and makes no network or subprocess call. This covers the five database methods,
  the seven source-hosting methods, the three storage methods and the secret read
  (which needs the secret client and a non-empty project id). A new adapter has every
  handle unset; a database or source-hosting \<open>initialize\<close> that does not return true
  leaves the adapter as it was, and so does a cloud \<open>initialize\<close> without a project id.
  \<open>executeGCloudCommand\<close> tests nothing: in every state it runs the \<open>gcloud\<close> subprocess.
\<close>

theorem uninitialized_adapter_operations_fail:
  "(client sb = None \<longrightarrow>
          Supabase_query w qa sb = (Inl (Error ''Supabase client not initialized''), sb, [])
        \<and> Supabase_insert w ia sb = (Inl (Error ''Supabase client not initialized''), sb, [])
        \<and> Supabase_update w ua sb = (Inl (Error ''Supabase client not initialized''), sb, [])
        \<and> Supabase_delete w da sb = (Inl (Error ''Supabase client not initialized''), sb, [])
        \<and> Supabase_rpc w ra sb = (Inl (Error ''Supabase client not initialized''), sb, []))
   \<and> (octokit gh = None \<longrightarrow>
          GitHub_getRepository w ga gh = (Inl (Error ''GitHub client not initialized''), gh, [])
        \<and> GitHub_listIssues w gb gh = (Inl (Error ''GitHub client not initialized''), gh, [])
        \<and> GitHub_createIssue w gc gh = (Inl (Error ''GitHub client not initialized''), gh, [])
        \<and> GitHub_listPullRequests w gd gh = (Inl (Error ''GitHub client not initialized''), gh, [])
        \<and> GitHub_createPullRequest w ge gh = (Inl (Error ''GitHub client not initialized''), gh, [])
        \<and> GitHub_getFileContent w gf gh = (Inl (Error ''GitHub client not initialized''), gh, [])
        \<and> GitHub_search w gg gh = (Inl (Error ''GitHub client not initialized''), gh, []))
   \<and> (storage gs = None \<longrightarrow>
          GCloud_listBucketContents w ca gs = (Inl (Error ''Google Cloud Storage client not initialized''), gs, [])
        \<and> GCloud_readFile w cb gs = (Inl (Error ''Google Cloud Storage client not initialized''), gs, [])
        \<and> GCloud_writeFile w cc gs = (Inl (Error ''Google Cloud Storage client not initialized''), gs, []))
   \<and> (gcloud_secretClient gm = None \<or> \<not> truthy_str (gcloud_project gm) \<longrightarrow>
          GCloud_getSecret w cd gm = (Inl (Error ''Google Cloud Secret Manager client not initialized''), gm, []))
   \<and> client new_SupabaseIntegration = None
   \<and> octokit new_GitHubIntegration = None
   \<and> storage new_GCloudIntegration = None
   \<and> gcloud_secretClient new_GCloudIntegration = None
   \<and> (outcome (Supabase_initialize w sm sb') \<noteq> Inr True \<longrightarrow>
          state_of (Supabase_initialize w sm sb') = sb')
   \<and> (outcome (GitHub_initialize w sm gh') \<noteq> Inr True \<longrightarrow>
          state_of (GitHub_initialize w sm gh') = gh')
   \<and> (\<not> hasGCloud sm \<longrightarrow> GCloud_initialize w sm gs' = (Inr False, gs', []))
   \<and> calls (GCloud_executeGCloudCommand w ce gx) =
        [Exec (''gcloud '' @ command ce @ '' ''
               @ (case command_args ce of None \<Rightarrow> [] | Some xs \<Rightarrow> js_join '' '' xs))]"
proof -
  have a: "client sb = None \<longrightarrow>
          Supabase_query w qa sb = (Inl (Error ''Supabase client not initialized''), sb, [])
        \<and> Supabase_insert w ia sb = (Inl (Error ''Supabase client not initialized''), sb, [])
        \<and> Supabase_update w ua sb = (Inl (Error ''Supabase client not initialized''), sb, [])
        \<and> Supabase_delete w da sb = (Inl (Error ''Supabase client not initialized''), sb, [])
        \<and> Supabase_rpc w ra sb = (Inl (Error ''Supabase client not initialized''), sb, [])"
    by (simp add: Supabase_uninitialized)
  have b: "octokit gh = None \<longrightarrow>
          GitHub_getRepository w ga gh = (Inl (Error ''GitHub client not initialized''), gh, [])
        \<and> GitHub_listIssues w gb gh = (Inl (Error ''GitHub client not initialized''), gh, [])
        \<and> GitHub_createIssue w gc gh = (Inl (Error ''GitHub client not initialized''), gh, [])
        \<and> GitHub_listPullRequests w gd gh = (Inl (Error ''GitHub client not initialized''), gh, [])
        \<and> GitHub_createPullRequest w ge gh = (Inl (Error ''GitHub client not initialized''), gh, [])
        \<and> GitHub_getFileContent w gf gh = (Inl (Error ''GitHub client not initialized''), gh, [])
        \<and> GitHub_search w gg gh = (Inl (Error ''GitHub client not initialized''), gh, [])"
    by (simp add: GitHub_uninitialized)
  have c: "storage gs = None \<longrightarrow>
          GCloud_listBucketContents w ca gs = (Inl (Error ''Google Cloud Storage client not initialized''), gs, [])
        \<and> GCloud_readFile w cb gs = (Inl (Error ''Google Cloud Storage client not initialized''), gs, [])
        \<and> GCloud_writeFile w cc gs = (Inl (Error ''Google Cloud Storage client not initialized''), gs, [])"
    by (simp add: GCloud_storage_uninitialized)
  have d: "gcloud_secretClient gm = None \<or> \<not> truthy_str (gcloud_project gm) \<longrightarrow>
          GCloud_getSecret w cd gm = (Inl (Error ''Google Cloud Secret Manager client not initialized''), gm, [])"
    using GCloud_secret_uninitialized by blast
  have e: "client new_SupabaseIntegration = None" "octokit new_GitHubIntegration = None"
    "storage new_GCloudIntegration = None" "gcloud_secretClient new_GCloudIntegration = None"
    by (simp_all add: new_SupabaseIntegration_def new_GitHubIntegration_def new_GCloudIntegration_def)
  have f: "outcome (Supabase_initialize w sm sb') \<noteq> Inr True \<longrightarrow>
          state_of (Supabase_initialize w sm sb') = sb'"
    using Supabase_initialize_failed by blast
  have g: "outcome (GitHub_initialize w sm gh') \<noteq> Inr True \<longrightarrow>
          state_of (GitHub_initialize w sm gh') = gh'"
    using GitHub_initialize_failed by blast
  have h: "\<not> hasGCloud sm \<longrightarrow> GCloud_initialize w sm gs' = (Inr False, gs', [])"
    using GCloud_initialize_no_project by blast
  note i = GCloud_executeGCloudCommand_calls [of w ce gx]
  from a b c d e f g h i show ?thesis by (intro conjI)
qed

theorem uninitialized_adapter_operations_fail_witness:
  "Supabase_query offline_world tagged_filter_args new_SupabaseIntegration = (Inl (Error ''Supabase client not initialized''), new_SupabaseIntegration, [])
   \<and> Supabase_insert offline_world demo_insert new_SupabaseIntegration = (Inl (Error ''Supabase client not initialized''), new_SupabaseIntegration, [])
   \<and> Supabase_update offline_world demo_update new_SupabaseIntegration = (Inl (Error ''Supabase client not initialized''), new_SupabaseIntegration, [])
   \<and> Supabase_delete offline_world demo_delete new_SupabaseIntegration = (Inl (Error ''Supabase client not initialized''), new_SupabaseIntegration, [])
   \<and> Supabase_rpc offline_world demo_rpc new_SupabaseIntegration = (Inl (Error ''Supabase client not initialized''), new_SupabaseIntegration, [])
   \<and> GitHub_getRepository offline_world demo_repo new_GitHubIntegration = (Inl (Error ''GitHub client not initialized''), new_GitHubIntegration, [])
   \<and> GitHub_listIssues offline_world demo_issues new_GitHubIntegration = (Inl (Error ''GitHub client not initialized''), new_GitHubIntegration, [])
   \<and> GitHub_createIssue offline_world demo_new_issue new_GitHubIntegration = (Inl (Error ''GitHub client not initialized''), new_GitHubIntegration, [])
   \<and> GitHub_listPullRequests offline_world demo_pulls new_GitHubIntegration = (Inl (Error ''GitHub client not initialized''), new_GitHubIntegration, [])
   \<and> GitHub_createPullRequest offline_world demo_new_pull new_GitHubIntegration = (Inl (Error ''GitHub client not initialized''), new_GitHubIntegration, [])
   \<and> GitHub_getFileContent offline_world demo_file new_GitHubIntegration = (Inl (Error ''GitHub client not initialized''), new_GitHubIntegration, [])
   \<and> GitHub_search offline_world demo_search new_GitHubIntegration = (Inl (Error ''GitHub client not initialized''), new_GitHubIntegration, [])
   \<and> GCloud_listBucketContents offline_world demo_list new_GCloudIntegration = (Inl (Error ''Google Cloud Storage client not initialized''), new_GCloudIntegration, [])
   \<and> GCloud_readFile offline_world demo_read new_GCloudIntegration = (Inl (Error ''Google Cloud Storage client not initialized''), new_GCloudIntegration, [])
   \<and> GCloud_writeFile offline_world demo_write new_GCloudIntegration = (Inl (Error ''Google Cloud Storage client not initialized''), new_GCloudIntegration, [])
   \<and> GCloud_getSecret offline_world demo_secret new_GCloudIntegration = (Inl (Error ''Google Cloud Secret Manager client not initialized''), new_GCloudIntegration, [])
   \<and> state_of (Supabase_initialize offline_world empty_manager new_SupabaseIntegration) =
        new_SupabaseIntegration
   \<and> state_of (GitHub_initialize offline_world empty_manager new_GitHubIntegration) =
        new_GitHubIntegration
   \<and> GCloud_initialize offline_world empty_manager new_GCloudIntegration =
        (Inr False, new_GCloudIntegration, [])"
proof -
  have e: "client new_SupabaseIntegration = None" "octokit new_GitHubIntegration = None"
    "storage new_GCloudIntegration = None"
    "gcloud_secretClient new_GCloudIntegration = None \<or> \<not> truthy_str (gcloud_project new_GCloudIntegration)"
    by (simp_all add: new_SupabaseIntegration_def new_GitHubIntegration_def new_GCloudIntegration_def)
  have f: "outcome (Supabase_initialize offline_world empty_manager new_SupabaseIntegration) \<noteq> Inr True"
    by (simp add: Supabase_initialize_def getSupabaseConfig_def ret_def outcome_def)
  have g: "outcome (GitHub_initialize offline_world empty_manager new_GitHubIntegration) \<noteq> Inr True"
    by (simp add: GitHub_initialize_def getGitHubToken_def github_token_def ret_def outcome_def)
  have h: "\<not> hasGCloud empty_manager"
    by (simp add: hasGCloud_def gcloud_projectId_def truthy_str_def)
  note t = uninitialized_adapter_operations_fail [where w = offline_world
      and sb = new_SupabaseIntegration and gh = new_GitHubIntegration
      and gs = new_GCloudIntegration and gm = new_GCloudIntegration
      and sb' = new_SupabaseIntegration and gh' = new_GitHubIntegration
      and gs' = new_GCloudIntegration and sm = empty_manager
      and qa = tagged_filter_args and ia = demo_insert and ua = demo_update and da = demo_delete
      and ra = demo_rpc and ga = demo_repo and gb = demo_issues and gc = demo_new_issue
      and gd = demo_pulls and ge = demo_new_pull and gf = demo_file and gg = demo_search
      and ca = demo_list and cb = demo_read and cc = demo_write and cd = demo_secret]
  note k1 = t [THEN conjunct1, THEN mp, OF e(1)]
  note k2 = t [THEN conjunct2, THEN conjunct1, THEN mp, OF e(2)]
  note k3 = t [THEN conjunct2, THEN conjunct2, THEN conjunct1, THEN mp, OF e(3)]
  note k4 = t [THEN conjunct2, THEN conjunct2, THEN conjunct2, THEN conjunct1, THEN mp, OF e(4)]
  note r = t [THEN conjunct2, THEN conjunct2, THEN conjunct2, THEN conjunct2, THEN conjunct2,
      THEN conjunct2, THEN conjunct2, THEN conjunct2]
  note k9 = r [THEN conjunct1, THEN mp, OF f]
  note k10 = r [THEN conjunct2, THEN conjunct1, THEN mp, OF g]
  note k11 = r [THEN conjunct2, THEN conjunct2, THEN conjunct1, THEN mp, OF h]
  from k1 k2 k3 k4 k9 k10 k11 show ?thesis by (intro conjI) (elim conjE, assumption)+
qed

text \<open>The claim as stated fails for \<open>executeGCloudCommand\<close> on a new, unavailable adapter:
  the subprocess runs and its output is returned.\<close>

theorem executeGCloudCommand_counterexample:
  "GCloud_isAvailable new_GCloudIntegration = False
   \<and> GCloud_executeGCloudCommand cli_world demo_command new_GCloudIntegration =
        (Inr (JStr ''[]''), new_GCloudIntegration, [Exec ''gcloud projects list --format=json''])"
  by (simp add: GCloud_executeGCloudCommand_def GCloud_isAvailable_def new_GCloudIntegration_def
      demo_command_def cli_world_def offline_world_def prog_defs trim_def is_space_def)

text \<open>
  Claim C3. Let \<open>m1\<close>, \<open>m2\<close> and \<open>m3\<close> be the states after the managed-store stage, the
  local-CLI stage and the environment stage of one load. Then \<open>loadSecrets\<close> ends in
  \<open>m3\<close>, and each of the six credential fields that is set after a stage has the same
  value after every later stage (\<open>kept\<close>): a later stage changes only fields that were
  unset. The load starts in a state where every present sub-record has its required
  field non-empty (\<open>valid\<close>); the constructor produces such a state and a load ends in
  one.
\<close>

theorem later_stages_only_fill_gaps:
  assumes "valid m0"
    and "m1 = state_of (managed_store_stage w m0)"
    and "m2 = state_of (loadFromGCloudConfig w m1)"
    and "m3 = state_of (loadFromEnvironment w m2)"
  shows "state_of (loadSecrets w m0) = m3 \<and> kept m1 m2 \<and> kept m2 m3 \<and> kept m1 m3
    \<and> valid m3 \<and> valid (state_of (new_SecretsManager w'))"
proof -
  have v1: "valid m1"
    using assms(1,2) by (simp add: valid_managed_store_stage)
  then have v2: "valid m2"
    using assms(3) by (simp add: valid_loadFromGCloudConfig)
  have k12: "kept m1 m2"
    using v1 assms(3) by (simp add: kept_loadFromGCloudConfig)
  have k23: "kept m2 m3"
    using v2 assms(4) by (simp add: kept_loadFromEnvironment)
  have "state_of (loadSecrets w m0) = m3"
    using assms(2-4) by (simp add: loadSecrets_state)
  moreover have "valid m3"
    using v2 assms(4) by (simp add: valid_loadFromEnvironment)
  ultimately show ?thesis
    using k12 k23 kept_trans [OF k12 k23] valid_new_SecretsManager [of w'] by blast
qed

theorem later_stages_only_fill_gaps_witness:
  "valid (state_of (new_SecretsManager layered_world))
   \<and> kept (state_of (managed_store_stage layered_world managed_manager))
           (state_of (loadFromGCloudConfig layered_world
              (state_of (managed_store_stage layered_world managed_manager))))
   \<and> kept (state_of (managed_store_stage layered_world managed_manager))
           (state_of (loadSecrets layered_world managed_manager))
   \<and> credential_fields (state_of (managed_store_stage layered_world managed_manager)) =
        [Some ''https://managed.example'', Some ''managed-key'', None, Some ''ghp_managed'',
         Some ''demo'', None]
   \<and> credential_fields (state_of (loadSecrets layered_world (state_of (new_SecretsManager layered_world)))) =
        [Some ''https://managed.example'', Some ''managed-key'', None, Some ''ghp_managed'',
         Some ''demo'', None]"
proof -
  let ?m1 = "state_of (managed_store_stage layered_world managed_manager)"
  let ?m2 = "state_of (loadFromGCloudConfig layered_world ?m1)"
  let ?m3 = "state_of (loadFromEnvironment layered_world ?m2)"
  let ?g = "\<lparr>projectId = ''demo'', applicationCredentials = None\<rparr>"
  have v: "valid managed_manager"
    by (simp add: valid_def managed_manager_def)
  note t = later_stages_only_fill_gaps [OF v refl refl refl, of layered_world layered_world]
  have h1: "secretClient managed_manager = Some SecretManagerServiceClient"
    and h2: "gcloud (secrets managed_manager) = Some ?g"
    and h3: "projectId ?g \<noteq> []"
    by (simp_all add: managed_manager_def)
  have f: "fetched layered_world ''demo'' ''supabase-url'' = Some ''https://managed.example''"
    "fetched layered_world ''demo'' ''supabase-anon-key'' = Some ''managed-key''"
    "fetched layered_world ''demo'' ''supabase-service-role-key'' = None"
    "fetched layered_world ''demo'' ''github-token'' = Some ''ghp_managed''"
    by (simp_all add: fetched_def secret_version_name_def layered_world_def partial_store_world_def
        managed_world_def offline_world_def)
  have m1: "?m1 =
       \<lparr>secrets = \<lparr>supabase = Some \<lparr>url = ''https://managed.example'', anonKey = ''managed-key'',
                                      serviceRoleKey = None\<rparr>,
                    github = Some \<lparr>token = ''ghp_managed''\<rparr>,
                    gcloud = Some ?g\<rparr>,
        secretClient = Some SecretManagerServiceClient\<rparr>"
    using managed_store_stage_state [OF h1 h2 h3, of layered_world]
    by (simp add: after_managed_def f Let_def field_defs managed_manager_def)
  have m2: "?m2 = ?m1"
    by (simp add: m1 loadFromGCloudConfig_eq state_of_def [of "(a, b, c)" for a b c] field_defs
        split: sum.splits)
  have c1: "credential_fields ?m1 =
        [Some ''https://managed.example'', Some ''managed-key'', None, Some ''ghp_managed'',
         Some ''demo'', None]"
    by (simp add: m1 credential_fields_def field_defs)
  have c3: "credential_fields ?m3 =
        [Some ''https://managed.example'', Some ''managed-key'', None, Some ''ghp_managed'',
         Some ''demo'', None]"
    unfolding m2
    by (simp add: m1 credential_fields_def loadFromEnvironment_supabase loadFromEnvironment_github
        loadFromEnvironment_gcloud field_defs)
  have l: "state_of (loadSecrets layered_world managed_manager) = ?m3"
    and k12: "kept ?m1 ?m2" and k13: "kept ?m1 ?m3"
    using t by blast+
  show ?thesis
    using v k12 k13 c1 c3
    by (simp only: new_layered_world l simp_thms)
qed



text \<open>
  Claim C5. In the managed-store stage (a client and the cloud sub-record present), whatever
  each fetch does: the stage itself returns normally; the four secrets are requested, each
  once and in order, so no failure stops a later fetch; a fetch that fails makes
  \<open>getSecret\<close> return nothing, with the state unchanged; the source-hosting token, when its
  fetch yields a non-empty value, is stored whatever happened to the other three; and the
  database URL and public key, when both yield non-empty values, are stored whatever
  happened to the other two.
\<close>

theorem sibling_fetches_survive_failures:
  assumes "secretClient m = Some c" and "gcloud (secrets m) = Some g"
  shows "outcome (loadFromSecretManager w m) = Inr ()
    \<and> calls (loadFromSecretManager w m) =
        [AccessSecretVersion (secret_version_name (projectId g) ''supabase-url''),
         AccessSecretVersion (secret_version_name (projectId g) ''supabase-anon-key''),
         AccessSecretVersion (secret_version_name (projectId g) ''supabase-service-role-key''),
         AccessSecretVersion (secret_version_name (projectId g) ''github-token'')]
    \<and> (\<forall>sid. isl (accessSecretVersion w (secret_version_name (projectId g) sid)) \<longrightarrow>
          getSecret w (projectId g) sid m =
            (Inr None, m, [AccessSecretVersion (secret_version_name (projectId g) sid)]))
    \<and> (\<forall>t. accessSecretVersion w (secret_version_name (projectId g) ''github-token'') = Inr (Some t)
             \<and> t \<noteq> [] \<longrightarrow>
          getGitHubToken (state_of (loadFromSecretManager w m)) = Some t)
    \<and> (\<forall>u k. accessSecretVersion w (secret_version_name (projectId g) ''supabase-url'') = Inr (Some u)
             \<and> u \<noteq> []
             \<and> accessSecretVersion w (secret_version_name (projectId g) ''supabase-anon-key'') = Inr (Some k)
             \<and> k \<noteq> [] \<longrightarrow>
          (\<exists>cfg. getSupabaseConfig (state_of (loadFromSecretManager w m)) = Some cfg
             \<and> url cfg = u \<and> anonKey cfg = k))"
proof -
  note eq = loadFromSecretManager_eq [OF assms, of w]
  have a: "outcome (loadFromSecretManager w m) = Inr ()"
    by (simp add: eq outcome_def)
  have b: "calls (loadFromSecretManager w m) =
        [AccessSecretVersion (secret_version_name (projectId g) ''supabase-url''),
         AccessSecretVersion (secret_version_name (projectId g) ''supabase-anon-key''),
         AccessSecretVersion (secret_version_name (projectId g) ''supabase-service-role-key''),
         AccessSecretVersion (secret_version_name (projectId g) ''github-token'')]"
    by (simp add: eq calls_def)
  have c: "\<forall>sid. isl (accessSecretVersion w (secret_version_name (projectId g) sid)) \<longrightarrow>
          getSecret w (projectId g) sid m =
            (Inr None, m, [AccessSecretVersion (secret_version_name (projectId g) sid)])"
    by (auto simp: getSecret_eq [OF assms(1)] fetched_def isl_def)
  have d: "\<forall>t. accessSecretVersion w (secret_version_name (projectId g) ''github-token'') = Inr (Some t)
             \<and> t \<noteq> [] \<longrightarrow>
          getGitHubToken (state_of (loadFromSecretManager w m)) = Some t"
  proof (intro allI impI, elim conjE)
    fix t
    assume "accessSecretVersion w (secret_version_name (projectId g) ''github-token'') = Inr (Some t)"
      and t: "t \<noteq> []"
    then have "fetched w (projectId g) ''github-token'' = Some t"
      by (simp add: fetched_def)
    from after_managed_github [OF this t, of m]
    show "getGitHubToken (state_of (loadFromSecretManager w m)) = Some t"
      by (simp add: eq state_of_def getGitHubToken_def github_token_def)
  qed
  have e: "\<forall>u k. accessSecretVersion w (secret_version_name (projectId g) ''supabase-url'') = Inr (Some u)
             \<and> u \<noteq> []
             \<and> accessSecretVersion w (secret_version_name (projectId g) ''supabase-anon-key'') = Inr (Some k)
             \<and> k \<noteq> [] \<longrightarrow>
          (\<exists>cfg. getSupabaseConfig (state_of (loadFromSecretManager w m)) = Some cfg
             \<and> url cfg = u \<and> anonKey cfg = k)"
  proof (intro allI impI, elim conjE)
    fix u k
    assume "accessSecretVersion w (secret_version_name (projectId g) ''supabase-url'') = Inr (Some u)"
      and u: "u \<noteq> []"
      and "accessSecretVersion w (secret_version_name (projectId g) ''supabase-anon-key'') = Inr (Some k)"
      and k: "k \<noteq> []"
    then have fu: "fetched w (projectId g) ''supabase-url'' = Some u"
      and fk: "fetched w (projectId g) ''supabase-anon-key'' = Some k"
      by (simp_all add: fetched_def)
    have "supabase (secrets (state_of (loadFromSecretManager w m))) =
       Some \<lparr>url = u, anonKey = k, serviceRoleKey = fetched w (projectId g) ''supabase-service-role-key''\<rparr>"
    proof (cases "truthy_str (fetched w (projectId g) ''github-token'')")
      case True
      then show ?thesis using u k
        by (simp add: eq state_of_def after_managed_def Let_def fu fk field_defs)
    next
      case False
      then show ?thesis using u k
        by (simp add: eq state_of_def after_managed_def Let_def fu fk field_defs)
    qed
    then show "\<exists>cfg. getSupabaseConfig (state_of (loadFromSecretManager w m)) = Some cfg
             \<and> url cfg = u \<and> anonKey cfg = k"
      by (simp add: getSupabaseConfig_def)
  qed
  from a b c d e show ?thesis by blast
qed

theorem sibling_fetches_survive_failures_witness:
  "isl (accessSecretVersion partial_store_world
          (secret_version_name ''demo'' ''supabase-service-role-key''))
   \<and> getSecret partial_store_world ''demo'' ''supabase-service-role-key'' managed_manager =
        (Inr None, managed_manager,
         [AccessSecretVersion ''projects/demo/secrets/supabase-service-role-key/versions/latest''])
   \<and> calls (loadFromSecretManager partial_store_world managed_manager) =
        [AccessSecretVersion ''projects/demo/secrets/supabase-url/versions/latest'',
         AccessSecretVersion ''projects/demo/secrets/supabase-anon-key/versions/latest'',
         AccessSecretVersion ''projects/demo/secrets/supabase-service-role-key/versions/latest'',
         AccessSecretVersion ''projects/demo/secrets/github-token/versions/latest'']
   \<and> getGitHubToken (state_of (loadFromSecretManager partial_store_world managed_manager)) =
        Some ''ghp_managed''
   \<and> (\<exists>cfg. getSupabaseConfig (state_of (loadFromSecretManager partial_store_world managed_manager)) = Some cfg
        \<and> url cfg = ''https://managed.example'' \<and> anonKey cfg = ''managed-key'')"
proof -
  let ?g = "\<lparr>projectId = ''demo'', applicationCredentials = None\<rparr>"
  have h1: "secretClient managed_manager = Some SecretManagerServiceClient"
    and h2: "gcloud (secrets managed_manager) = Some ?g"
    by (simp_all add: managed_manager_def)
  have n: "secret_version_name ''demo'' ''supabase-url'' = ''projects/demo/secrets/supabase-url/versions/latest''"
    "secret_version_name ''demo'' ''supabase-anon-key'' = ''projects/demo/secrets/supabase-anon-key/versions/latest''"
    "secret_version_name ''demo'' ''supabase-service-role-key'' = ''projects/demo/secrets/supabase-service-role-key/versions/latest''"
    "secret_version_name ''demo'' ''github-token'' = ''projects/demo/secrets/github-token/versions/latest''"
    by (simp_all add: secret_version_name_def)
  have f: "isl (accessSecretVersion partial_store_world ''projects/demo/secrets/supabase-service-role-key/versions/latest'')"
    "accessSecretVersion partial_store_world ''projects/demo/secrets/github-token/versions/latest'' = Inr (Some ''ghp_managed'')"
    "accessSecretVersion partial_store_world ''projects/demo/secrets/supabase-url/versions/latest'' = Inr (Some ''https://managed.example'')"
    "accessSecretVersion partial_store_world ''projects/demo/secrets/supabase-anon-key/versions/latest'' = Inr (Some ''managed-key'')"
    by (simp_all add: partial_store_world_def managed_world_def offline_world_def)
  from sibling_fetches_survive_failures [OF h1 h2, of partial_store_world]
  show ?thesis
    by (simp add: n f)
qed

text \<open>
  Claim C6, as amended. For one filter entry \<open>[key, value]\<close> of the query operation:
  a value whose \<open>operator\<close> property is \<open>'gte'\<close> chains \<open>.gte(key, value.value)\<close>, and in the
  chain built for a filter object (keys distinct) that is the one predicate on that key;
  a value whose \<open>operator\<close> property is truthy and is not one of the nine supported
  tags chains nothing, and the chain built is the one built without that entry, so every
  other entry is applied as before; a value other than \<open>null\<close> whose \<open>operator\<close> property
  is falsy (absent, the empty string, \<open>0\<close>, \<open>false\<close>, \<open>null\<close>) is not taken as tagged:
  it is compared by equality as a whole. \<open>Supabase_query\<close> awaits exactly the chain
  \<open>build_query\<close> builds (lemma \<open>Supabase_query_calls\<close>).
\<close>

theorem operator_tagged_filters:
  "(get_prop g ''operator'' = JStr ''gte'' \<longrightarrow>
      apply_filter q (k, g) = q @ [Gte k (get_prop g ''value'')])
   \<and> (get_prop g ''operator'' = JStr ''gte'' \<and> query_filter args = Some es
        \<and> distinct (map fst es) \<and> (k, g) \<in> set es \<longrightarrow>
      predicates_on k (build_query args) = [Gte k (get_prop g ''value'')])
   \<and> (truthy (get_prop u ''operator'') \<and> get_prop u ''operator'' \<notin> JStr ` set supported_operators \<longrightarrow>
      apply_filter q (k', u) = q
      \<and> build_query (args'\<lparr>query_filter := Some (xs @ (k', u) # ys)\<rparr>) =
          build_query (args'\<lparr>query_filter := Some (xs @ ys)\<rparr>))
   \<and> (f \<noteq> JNull \<and> \<not> truthy (get_prop f ''operator'') \<longrightarrow>
      apply_filter q (k'', f) = q @ [Eq k'' f])"
proof -
  have a: "get_prop g ''operator'' = JStr ''gte'' \<longrightarrow>
      apply_filter q (k, g) = q @ [Gte k (get_prop g ''value'')]"
    by (simp add: apply_filter_gte)
  have b: "get_prop g ''operator'' = JStr ''gte'' \<and> query_filter args = Some es
        \<and> distinct (map fst es) \<and> (k, g) \<in> set es \<longrightarrow>
      predicates_on k (build_query args) = [Gte k (get_prop g ''value'')]"
  proof (intro impI, elim conjE)
    assume g: "get_prop g ''operator'' = JStr ''gte''" and "query_filter args = Some es"
      "distinct (map fst es)" "(k, g) \<in> set es"
    from predicates_on_build_query [OF this(2-4)] apply_filter_gte [OF g, of "[]" k]
    show "predicates_on k (build_query args) = [Gte k (get_prop g ''value'')]" by simp
  qed
  have c: "truthy (get_prop u ''operator'') \<and> get_prop u ''operator'' \<notin> JStr ` set supported_operators \<longrightarrow>
      apply_filter q (k', u) = q
      \<and> build_query (args'\<lparr>query_filter := Some (xs @ (k', u) # ys)\<rparr>) =
          build_query (args'\<lparr>query_filter := Some (xs @ ys)\<rparr>)"
  proof (intro impI, elim conjE)
    assume u: "truthy (get_prop u ''operator'')" "get_prop u ''operator'' \<notin> JStr ` set supported_operators"
    have n: "apply_filter q (k', u) = q" for q
      using u by (rule apply_filter_unsupported)
    have "build_query (args'\<lparr>query_filter := Some (xs @ (k', u) # ys)\<rparr>) =
          build_query (args'\<lparr>query_filter := Some (xs @ ys)\<rparr>)"
      by (simp add: build_query_eq n)
    with n show "apply_filter q (k', u) = q
      \<and> build_query (args'\<lparr>query_filter := Some (xs @ (k', u) # ys)\<rparr>) =
          build_query (args'\<lparr>query_filter := Some (xs @ ys)\<rparr>)" by simp
  qed
  have d: "f \<noteq> JNull \<and> \<not> truthy (get_prop f ''operator'') \<longrightarrow>
      apply_filter q (k'', f) = q @ [Eq k'' f]"
    by (simp add: apply_filter_untagged)
  from a b c d show ?thesis by blast
qed

theorem operator_tagged_filters_witness:
  "apply_filter [] (''score'', JObj [(''operator'', JStr ''gte''), (''value'', JNum 10)]) =
     [Gte ''score'' (JNum 10)]
   \<and> predicates_on ''score'' (build_query tagged_filter_args) = [Gte ''score'' (JNum 10)]
   \<and> apply_filter [] (''name'', JObj [(''operator'', JStr ''regex''), (''value'', JStr ''^a'')]) = []
   \<and> build_query tagged_filter_args =
       build_query (tagged_filter_args\<lparr>query_filter := Some
         [(''score'', JObj [(''operator'', JStr ''gte''), (''value'', JNum 10)]),
          (''city'', JStr ''Paris'')]\<rparr>)
   \<and> apply_filter [] (''city'', JStr ''Paris'') = [Eq ''city'' (JStr ''Paris'')]
   \<and> build_query tagged_filter_args =
     [From ''games'', Select ''id,score'', Gte ''score'' (JNum 10), Eq ''city'' (JStr ''Paris''),
      Order ''score'' True, Limit 5]"
proof -
  let ?g = "JObj [(''operator'', JStr ''gte''), (''value'', JNum 10)]"
  let ?u = "JObj [(''operator'', JStr ''regex''), (''value'', JStr ''^a'')]"
  let ?es = "[(''score'', ?g), (''name'', ?u), (''city'', JStr ''Paris'')]"
  have g: "get_prop ?g ''operator'' = JStr ''gte''" by simp
  have gv: "get_prop ?g ''value'' = JNum 10" by simp
  have gg: "get_prop ?g ''operator'' = JStr ''gte'' \<and> query_filter tagged_filter_args = Some ?es
        \<and> distinct (map fst ?es) \<and> (''score'', ?g) \<in> set ?es"
    by (simp add: tagged_filter_args_def)
  have u: "truthy (get_prop ?u ''operator'') \<and> get_prop ?u ''operator'' \<notin> JStr ` set supported_operators"
    by (simp add: supported_operators_def)
  have f: "JStr ''Paris'' \<noteq> JNull \<and> \<not> truthy (get_prop (JStr ''Paris'') ''operator'')"
    by simp
  have same: "tagged_filter_args\<lparr>query_filter := Some ?es\<rparr> = tagged_filter_args"
    by (simp add: tagged_filter_args_def)
  note t = operator_tagged_filters [where g = ?g and q = "[]" and k = "''score''"
      and args = tagged_filter_args and es = ?es and u = ?u and k' = "''name''"
      and args' = tagged_filter_args and xs = "[(''score'', ?g)]" and ys = "[(''city'', JStr ''Paris'')]"
      and f = "JStr ''Paris''" and k'' = "''city''"]
  note k1 = t [THEN conjunct1, THEN mp, OF g]
  note k2 = t [THEN conjunct2, THEN conjunct1, THEN mp, OF gg]
  note k3 = t [THEN conjunct2, THEN conjunct2, THEN conjunct1, THEN mp, OF u]
  note k4 = t [THEN conjunct2, THEN conjunct2, THEN conjunct2, THEN mp, OF f]
  have k3b: "build_query tagged_filter_args =
       build_query (tagged_filter_args\<lparr>query_filter := Some [(''score'', ?g), (''city'', JStr ''Paris'')]\<rparr>)"
    using k3 [THEN conjunct2] by (simp add: same)
  show ?thesis
    using k1 k2 k3 [THEN conjunct1] k3b k4 build_tagged_filter_args
    by (simp only: gv simp_thms append_Nil)
qed

text \<open>The claim as stated fails for the tag \<open>''\<close>: it is outside the supported set, yet
  an equality predicate against the whole object is applied for its key.\<close>

theorem operator_tagged_filters_counterexample:
  "'''' \<notin> set supported_operators
   \<and> query_filter empty_tag_args =
       Some [(''score'', JObj [(''operator'', JStr ''''), (''value'', JNum 10)]), (''city'', JStr ''Paris'')]
   \<and> build_query empty_tag_args =
     [From ''games'', Select ''*'',
      Eq ''score'' (JObj [(''operator'', JStr ''''), (''value'', JNum 10)]),
      Eq ''city'' (JStr ''Paris'')]
   \<and> predicates_on ''score'' (build_query empty_tag_args) =
     [Eq ''score'' (JObj [(''operator'', JStr ''''), (''value'', JNum 10)])]"
proof -
  have a: "'''' \<notin> set supported_operators"
    by (simp add: supported_operators_def)
  have b: "query_filter empty_tag_args =
       Some [(''score'', JObj [(''operator'', JStr ''''), (''value'', JNum 10)]), (''city'', JStr ''Paris'')]"
    by (simp add: empty_tag_args_def)
  have c: "predicates_on ''score'' (build_query empty_tag_args) =
     [Eq ''score'' (JObj [(''operator'', JStr ''''), (''value'', JNum 10)])]"
    by (simp add: build_empty_tag_args predicates_on_def)
  from a b c build_empty_tag_args show ?thesis by blast
qed

text \<open>
  Claim C7. A filter entry whose value is \<open>null\<close> makes the loop body chain
  \<open>.is(key, null)\<close>. In the chain \<open>query\<close> builds and awaits for a filter object (keys
  distinct) that holds \<open>null\<close> under \<open>k\<close>, the one predicate on \<open>k\<close> is that
  \<open>is null\<close>, and no equality against \<open>null\<close> on \<open>k\<close> occurs.
\<close>

theorem null_filter_is_is_null:
  assumes "query_filter args = Some es" and "distinct (map fst es)" and "(k, JNull) \<in> set es"
    and "client this = Some c"
  shows "apply_filter q (k, JNull) = q @ [Is k JNull]
       \<and> predicates_on k (build_query args) = [Is k JNull]
       \<and> Eq k JNull \<notin> set (build_query args)
       \<and> calls (Supabase_query w args this) = [Postgrest (build_query args)]"
proof -
  have a: "apply_filter q (k, JNull) = q @ [Is k JNull]" for q
    by (rule apply_filter_null)
  have b: "predicates_on k (build_query args) = [Is k JNull]"
    using predicates_on_build_query [OF assms(1-3)] a [of "[]"] by simp
  have "Eq k JNull \<notin> set (predicates_on k (build_query args))"
    by (simp add: b)
  then have "Eq k JNull \<notin> set (build_query args)"
    by (simp add: predicates_on_def)
  with a b Supabase_query_calls [OF assms(4)] show ?thesis by blast
qed

theorem null_filter_is_is_null_witness:
  "build_query null_filter_args =
     [From ''users'', Select ''*'', Is ''deleted_at'' JNull, Eq ''city'' (JStr ''Paris'')]
   \<and> predicates_on ''deleted_at'' (build_query null_filter_args) = [Is ''deleted_at'' JNull]
   \<and> Eq ''deleted_at'' JNull \<notin> set (build_query null_filter_args)
   \<and> calls (Supabase_query offline_world null_filter_args ready_supabase) =
        [Postgrest [From ''users'', Select ''*'', Is ''deleted_at'' JNull, Eq ''city'' (JStr ''Paris'')]]"
proof -
  have h1: "query_filter null_filter_args = Some [(''deleted_at'', JNull), (''city'', JStr ''Paris'')]"
    by (simp add: null_filter_args_def)
  have h2: "distinct (map fst [(''deleted_at'', JNull), (''city'', JStr ''Paris'')])"
    and h3: "(''deleted_at'', JNull) \<in> set [(''deleted_at'', JNull), (''city'', JStr ''Paris'')]"
    by simp_all
  have h4: "client ready_supabase = Some (SupabaseClient ''https://managed.example'' ''managed-key'')"
    by (simp add: ready_supabase_def)
  note t = null_filter_is_is_null [OF h1 h2 h3 h4, of "[]" offline_world]
  have c: "calls (Supabase_query offline_world null_filter_args ready_supabase) =
        [Postgrest (build_query null_filter_args)]"
    using t by blast
  show ?thesis
    using t build_null_filter_args c by (intro conjI) (simp_all only:, blast+)
qed

text \<open>
  Claim C8, as amended. When the environment fallback populates the database sub-record
  (no database URL set so far, \<open>SUPABASE_URL\<close> non-empty) and \<open>SUPABASE_ANON_KEY\<close> is
  absent, the sub-record holds the URL and the empty string as public key, and
  \<open>hasSupabase\<close> returns false: the empty string is falsy in
  \<open>!!(url && anonKey)\<close>.
\<close>

theorem empty_public_key_is_unavailable:
  assumes "\<not> truthy_str (supabase_url m)"
    and "env w ''SUPABASE_URL'' = Some u" and "u \<noteq> []"
    and "env w ''SUPABASE_ANON_KEY'' = None"
  shows "getSupabaseConfig (state_of (loadFromEnvironment w m)) =
           Some \<lparr>url = u, anonKey = [], serviceRoleKey = env w ''SUPABASE_SERVICE_ROLE_KEY''\<rparr>
       \<and> \<not> hasSupabase (state_of (loadFromEnvironment w m))"
  using assms
  by (simp add: getSupabaseConfig_def hasSupabase_def loadFromEnvironment_supabase
      supabase_url_def supabase_anonKey_def truthy_str_def or_str_def)

theorem empty_public_key_is_unavailable_witness:
  "getSupabaseConfig (state_of (loadFromEnvironment url_only_world empty_manager)) =
           Some \<lparr>url = ''https://env.example'', anonKey = [], serviceRoleKey = None\<rparr>
       \<and> \<not> hasSupabase (state_of (loadFromEnvironment url_only_world empty_manager))"
proof -
  have h1: "\<not> truthy_str (supabase_url empty_manager)"
    by (simp add: supabase_url_def truthy_str_def)
  have h2: "env url_only_world ''SUPABASE_URL'' = Some ''https://env.example''"
    and h4: "env url_only_world ''SUPABASE_ANON_KEY'' = None"
    and e: "env url_only_world ''SUPABASE_SERVICE_ROLE_KEY'' = None"
    by (simp_all add: url_only_world_def offline_world_def)
  have h3: "''https://env.example'' \<noteq> []" by simp
  from empty_public_key_is_unavailable [OF h1 h2 h3 h4] show ?thesis by (simp add: e)
qed


text \<open>The claim as stated (\<open>hasSupabase\<close> returns true) fails after a whole load in a
  world that offers nothing but \<open>SUPABASE_URL\<close>.\<close>

theorem empty_public_key_counterexample:
  "env url_only_world ''SUPABASE_ANON_KEY'' = None \<and>
   getSupabaseConfig (state_of (loadSecrets url_only_world (state_of (new_SecretsManager url_only_world)))) =
     Some \<lparr>url = ''https://env.example'', anonKey = [], serviceRoleKey = None\<rparr> \<and>
   hasSupabase (state_of (loadSecrets url_only_world (state_of (new_SecretsManager url_only_world)))) = False"
proof -
  have x: "execSync url_only_world ''gcloud config get-value project'' = Inl (Error ''command not found'')"
    and y: "execSync url_only_world ''gcloud auth application-default print-access-token 2>/dev/null''
             = Inl (Error ''command not found'')"
    and e: "env url_only_world ''SUPABASE_ANON_KEY'' = None"
       "env url_only_world ''SUPABASE_URL'' = Some ''https://env.example''"
       "env url_only_world ''SUPABASE_SERVICE_ROLE_KEY'' = None"
    by (simp_all add: url_only_world_def offline_world_def)
  have m: "state_of (new_SecretsManager url_only_world) = empty_manager"
    by (simp add: new_offline [OF x] state_of_def)
  have s: "state_of (loadFromGCloudConfig url_only_world (state_of (managed_store_stage url_only_world empty_manager)))
            = empty_manager"
    by (simp add: managed_store_stage_skip loadFromGCloudConfig_eq y state_of_def)
  show ?thesis
    by (simp add: m e loadSecrets_state s getSupabaseConfig_def hasSupabase_def
        loadFromEnvironment_supabase supabase_url_def supabase_anonKey_def truthy_str_def or_str_def)
qed

text \<open>
  Claim C9 (the clone step skips exactly the one expected repository directory that
  exists and attempts the other five) does not hold of the script, because the fifth
  entry of \<open>REPOS\<close> is \<open>terraform-gcp,\<close>. With only \<open>terraform-gcp\<close> present and every
  clone succeeding, nothing is skipped and six clones run, one of them of
  \<open>terraform-gcp,.git\<close> into \<open>terraform-gcp,\<close>. With only \<open>pulse\<close> present and that one
  URL failing, as it must for a repository that does not exist, the script stops there
  with a non-zero status and \<open>n8n-sync\<close> is never attempted.
\<close>

theorem clone_step_trailing_comma:
  "''terraform-gcp'' \<in> set expected_repos
   \<and> setup_repos (\<lambda>url dir. True) {''terraform-gcp''} =
     (True,
      {''terraform-gcp'', ''pulse'', ''pulse-ui'', ''pulse-apis'', ''pulse-type-registry'',
       ''terraform-gcp,'', ''n8n-sync''},
      [GitClone ''https://github.com/anandroid/pulse.git'' ''pulse'',
       GitClone ''https://github.com/anandroid/pulse-ui.git'' ''pulse-ui'',
       GitClone ''https://github.com/anandroid/pulse-apis.git'' ''pulse-apis'',
       GitClone ''https://github.com/anandroid/pulse-type-registry.git'' ''pulse-type-registry'',
       GitClone ''https://github.com/anandroid/terraform-gcp,.git'' ''terraform-gcp,'',
       GitClone ''https://github.com/anandroid/n8n-sync.git'' ''n8n-sync''])
   \<and> setup_repos (\<lambda>url dir. url \<noteq> ''https://github.com/anandroid/terraform-gcp,.git'') {''pulse''} =
     (False,
      {''pulse'', ''pulse-ui'', ''pulse-apis'', ''pulse-type-registry''},
      [Skipped ''pulse'',
       GitClone ''https://github.com/anandroid/pulse-ui.git'' ''pulse-ui'',
       GitClone ''https://github.com/anandroid/pulse-apis.git'' ''pulse-apis'',
       GitClone ''https://github.com/anandroid/pulse-type-registry.git'' ''pulse-type-registry'',
       GitClone ''https://github.com/anandroid/terraform-gcp,.git'' ''terraform-gcp,''])"
proof -
  have a: "''terraform-gcp'' \<in> set expected_repos"
    by (simp add: expected_repos_def)
  have b: "setup_repos (\<lambda>url dir. True) {''terraform-gcp''} =
     (True,
      {''terraform-gcp'', ''pulse'', ''pulse-ui'', ''pulse-apis'', ''pulse-type-registry'',
       ''terraform-gcp,'', ''n8n-sync''},
      [GitClone ''https://github.com/anandroid/pulse.git'' ''pulse'',
       GitClone ''https://github.com/anandroid/pulse-ui.git'' ''pulse-ui'',
       GitClone ''https://github.com/anandroid/pulse-apis.git'' ''pulse-apis'',
       GitClone ''https://github.com/anandroid/pulse-type-registry.git'' ''pulse-type-registry'',
       GitClone ''https://github.com/anandroid/terraform-gcp,.git'' ''terraform-gcp,'',
       GitClone ''https://github.com/anandroid/n8n-sync.git'' ''n8n-sync''])"
    by (simp add: setup_repos_def REPOS_def BASE_URL_def) auto
  have c: "setup_repos (\<lambda>url dir. url \<noteq> ''https://github.com/anandroid/terraform-gcp,.git'') {''pulse''} =
     (False,
      {''pulse'', ''pulse-ui'', ''pulse-apis'', ''pulse-type-registry''},
      [Skipped ''pulse'',
       GitClone ''https://github.com/anandroid/pulse-ui.git'' ''pulse-ui'',
       GitClone ''https://github.com/anandroid/pulse-apis.git'' ''pulse-apis'',
       GitClone ''https://github.com/anandroid/pulse-type-registry.git'' ''pulse-type-registry'',
       GitClone ''https://github.com/anandroid/terraform-gcp,.git'' ''terraform-gcp,''])"
    by (simp add: setup_repos_def REPOS_def BASE_URL_def) auto
  from a b c show ?thesis by (intro conjI)
qed

text \<open>
  Claim C10. A row limit of \<open>0\<close> is not applied: the chain built, and the whole query
  operation, are the same as with no limit, and the chain holds no \<open>limit\<close> call; a
  non-zero limit \<open>n\<close> appends \<open>.limit(n)\<close> to that chain.
\<close>

theorem zero_limit_not_applied:
  "build_query (args\<lparr>query_limit := Some 0\<rparr>) = build_query (args\<lparr>query_limit := None\<rparr>)
   \<and> Supabase_query w (args\<lparr>query_limit := Some 0\<rparr>) = Supabase_query w (args\<lparr>query_limit := None\<rparr>)
   \<and> (\<forall>n. Limit n \<notin> set (build_query (args\<lparr>query_limit := Some 0\<rparr>)))
   \<and> (n \<noteq> 0 \<longrightarrow>
        build_query (args\<lparr>query_limit := Some n\<rparr>) = build_query (args\<lparr>query_limit := None\<rparr>) @ [Limit n])"
proof -
  have a: "build_query (args\<lparr>query_limit := Some 0\<rparr>) = build_query (args\<lparr>query_limit := None\<rparr>)"
    by (simp add: build_query_def)
  have b: "Supabase_query w (args\<lparr>query_limit := Some 0\<rparr>) = Supabase_query w (args\<lparr>query_limit := None\<rparr>)"
    by (simp only: Supabase_query_def a)
  have nl: "Limit n \<notin> set (apply_filter [] e)" for n e
    using apply_filter_column [of "Limit n" e] by auto
  have c: "\<forall>n. Limit n \<notin> set (build_query (args\<lparr>query_limit := Some 0\<rparr>))"
    by (auto simp: build_query_eq nl split: option.splits)
  have d: "n \<noteq> 0 \<longrightarrow>
        build_query (args\<lparr>query_limit := Some n\<rparr>) = build_query (args\<lparr>query_limit := None\<rparr>) @ [Limit n]"
    by (simp add: build_query_eq)
  from a b c d show ?thesis by blast
qed

theorem zero_limit_not_applied_witness:
  "build_query (tagged_filter_args\<lparr>query_limit := Some 0\<rparr>) =
     [From ''games'', Select ''id,score'', Gte ''score'' (JNum 10), Eq ''city'' (JStr ''Paris''),
      Order ''score'' True]
   \<and> build_query (tagged_filter_args\<lparr>query_limit := None\<rparr>) =
     [From ''games'', Select ''id,score'', Gte ''score'' (JNum 10), Eq ''city'' (JStr ''Paris''),
      Order ''score'' True]
   \<and> build_query (tagged_filter_args\<lparr>query_limit := Some 5\<rparr>) =
     [From ''games'', Select ''id,score'', Gte ''score'' (JNum 10), Eq ''city'' (JStr ''Paris''),
      Order ''score'' True, Limit 5]"
proof -
  have n: "(5::int) \<noteq> 0" by simp
  note t = zero_limit_not_applied [of tagged_filter_args offline_world 5]
  note k1 = t [THEN conjunct1]
  note k4 = t [THEN conjunct2, THEN conjunct2, THEN conjunct2, THEN mp, OF n]
  have e: "build_query (tagged_filter_args\<lparr>query_limit := None\<rparr>) =
     [From ''games'', Select ''id,score'', Gte ''score'' (JNum 10), Eq ''city'' (JStr ''Paris''),
      Order ''score'' True]"
    by (simp add: build_query_def tagged_filter_args_def apply_filter_def or_str_def Let_def)
  show ?thesis using k1 k4 e by simp
qed


end
